theory Spec2Isabelle
  imports Main
begin

section \<open>The mailer package: a wrapper over an IMAP client\<close>

text \<open>
  The package (\<^verbatim>\<open>mailer.py\<close>) has three classes: \<^verbatim>\<open>Message\<close>, a parsed
  e-mail; \<^verbatim>\<open>MailBox\<close>, a named folder of a mailer; \<^verbatim>\<open>Mailer\<close>, a subclass of
  \<^verbatim>\<open>imaplib.IMAP4_SSL\<close> that owns the connection.

  Conventions of the embedding.
  \<^item> Python's unbounded \<^verbatim>\<open>int\<close> is \<^typ>\<open>int\<close>; \<^verbatim>\<open>str\<close> and \<^verbatim>\<open>bytes\<close> are both
    \<^typ>\<open>string\<close>, and text is ASCII.
  \<^item> A call that may raise returns \<open>error + 'a\<close>, \<open>Inl\<close> carrying the exception.
  \<^item> The libraries the package calls (\<^verbatim>\<open>imaplib\<close>, \<^verbatim>\<open>email\<close>, \<^verbatim>\<open>os\<close>) are not part of
    the package. The connection is a record of the replies it gives, the e-mail library
    a record of the functions used, the filesystem a record of what can be opened and
    what the files hold; every theorem holds for all of them unless it says otherwise.
  \<^item> The replies of the connection are a status with data, or an exception other than
    \<^verbatim>\<open>imaplib.IMAP4.abort\<close>. The handlers \<^verbatim>\<open>except imaplib.IMAP4.abort\<close>, which
    rerun the call on a fresh connection, are therefore never entered here: the model
    describes the calls during which the server does not drop the session.
\<close>

subsection \<open>Exceptions\<close>

datatype error =
    ValueError string
  | KeyError string
  | NameError string
  | TypeError string
  | AttributeError string
  | IndexError string
  | ZeroDivisionError string
  | OSError string
  | IMAP4_error string
  | Unmodelled string
    \<comment> \<open>a Python construct this model does not cover; no theorem is about such a run\<close>

subsection \<open>Names bound in the module\<close>

text \<open>
  A name that a method body reads and does not assign is looked up among the module's
  globals and then among the builtins; a name found in neither raises \<^verbatim>\<open>NameError\<close>
  when it is evaluated. The globals of \<^verbatim>\<open>mailer.py\<close> are what its statements
  bind: \<^verbatim>\<open>from typing import *\<close> (the names of \<^verbatim>\<open>typing.__all__\<close>, here of
  CPython 3.11, as are the builtins),
  \<^verbatim>\<open>import imaplib\<close>, \<^verbatim>\<open>email\<close>, \<^verbatim>\<open>os\<close>, \<^verbatim>\<open>time\<close>, \<^verbatim>\<open>socket\<close>,
  \<^verbatim>\<open>from email.policy import default\<close>,
  \<^verbatim>\<open>from email.utils import parsedate_to_datetime\<close>, and the three classes.
\<close>

definition typing_all :: "string list" where
  "typing_all =
    [''Annotated'', ''Any'', ''Callable'', ''ClassVar'', ''Concatenate'', ''Final'',
     ''ForwardRef'', ''Generic'', ''Literal'', ''Optional'', ''ParamSpec'', ''Protocol'',
     ''Tuple'', ''Type'', ''TypeVar'', ''TypeVarTuple'', ''Union'', ''AbstractSet'',
     ''ByteString'', ''Container'', ''ContextManager'', ''Hashable'', ''ItemsView'',
     ''Iterable'', ''Iterator'', ''KeysView'', ''Mapping'', ''MappingView'',
     ''MutableMapping'', ''MutableSequence'', ''MutableSet'', ''Sequence'', ''Sized'',
     ''ValuesView'', ''Awaitable'', ''AsyncIterator'', ''AsyncIterable'', ''Coroutine'',
     ''Collection'', ''AsyncGenerator'', ''AsyncContextManager'', ''Reversible'',
     ''SupportsAbs'', ''SupportsBytes'', ''SupportsComplex'', ''SupportsFloat'',
     ''SupportsIndex'', ''SupportsInt'', ''SupportsRound'', ''ChainMap'', ''Counter'',
     ''Deque'', ''Dict'', ''DefaultDict'', ''List'', ''OrderedDict'', ''Set'',
     ''FrozenSet'', ''NamedTuple'', ''TypedDict'', ''Generator'', ''BinaryIO'', ''IO'',
     ''Match'', ''Pattern'', ''TextIO'', ''AnyStr'', ''assert_type'', ''assert_never'',
     ''cast'', ''clear_overloads'', ''dataclass_transform'', ''final'', ''get_args'',
     ''get_origin'', ''get_overloads'', ''get_type_hints'', ''is_typeddict'',
     ''LiteralString'', ''Never'', ''NewType'', ''no_type_check'',
     ''no_type_check_decorator'', ''NoReturn'', ''NotRequired'', ''overload'',
     ''ParamSpecArgs'', ''ParamSpecKwargs'', ''Required'', ''reveal_type'',
     ''runtime_checkable'', ''Self'', ''Text'', ''TYPE_CHECKING'', ''TypeAlias'',
     ''TypeGuard'', ''Unpack'']"

definition module_globals :: "string list" where
  "module_globals =
    typing_all @
    [''imaplib'', ''email'', ''os'', ''time'', ''socket'', ''default'',
     ''parsedate_to_datetime'', ''Message'', ''MailBox'', ''Mailer'']"

definition builtins :: "string list" where
  "builtins =
    [''ArithmeticError'', ''AssertionError'', ''AttributeError'', ''BaseException'',
     ''BaseExceptionGroup'', ''BlockingIOError'', ''BrokenPipeError'', ''BufferError'',
     ''BytesWarning'', ''ChildProcessError'', ''ConnectionAbortedError'',
     ''ConnectionError'', ''ConnectionRefusedError'', ''ConnectionResetError'',
     ''DeprecationWarning'', ''EOFError'', ''Ellipsis'', ''EncodingWarning'',
     ''EnvironmentError'', ''Exception'', ''ExceptionGroup'', ''False'',
     ''FileExistsError'', ''FileNotFoundError'', ''FloatingPointError'', ''FutureWarning'',
     ''GeneratorExit'', ''IOError'', ''ImportError'', ''ImportWarning'',
     ''IndentationError'', ''IndexError'', ''InterruptedError'', ''IsADirectoryError'',
     ''KeyError'', ''KeyboardInterrupt'', ''LookupError'', ''MemoryError'',
     ''ModuleNotFoundError'', ''NameError'', ''None'', ''NotADirectoryError'',
     ''NotImplemented'', ''NotImplementedError'', ''OSError'', ''OverflowError'',
     ''PendingDeprecationWarning'', ''PermissionError'', ''ProcessLookupError'',
     ''RecursionError'', ''ReferenceError'', ''ResourceWarning'', ''RuntimeError'',
     ''RuntimeWarning'', ''StopAsyncIteration'', ''StopIteration'', ''SyntaxError'',
     ''SyntaxWarning'', ''SystemError'', ''SystemExit'', ''TabError'', ''TimeoutError'',
     ''True'', ''TypeError'', ''UnboundLocalError'', ''UnicodeDecodeError'',
     ''UnicodeEncodeError'', ''UnicodeError'', ''UnicodeTranslateError'',
     ''UnicodeWarning'', ''UserWarning'', ''ValueError'', ''Warning'',
     ''ZeroDivisionError'', ''__build_class__'', ''__debug__'', ''__doc__'', ''__import__'',
     ''__loader__'', ''__name__'', ''__package__'', ''__spec__'', ''abs'', ''aiter'',
     ''all'', ''anext'', ''any'', ''ascii'', ''bin'', ''bool'', ''breakpoint'',
     ''bytearray'', ''bytes'', ''callable'', ''chr'', ''classmethod'', ''compile'',
     ''complex'', ''copyright'', ''credits'', ''delattr'', ''dict'', ''dir'', ''divmod'',
     ''enumerate'', ''eval'', ''exec'', ''exit'', ''filter'', ''float'', ''format'',
     ''frozenset'', ''getattr'', ''globals'', ''hasattr'', ''hash'', ''help'', ''hex'',
     ''id'', ''input'', ''int'', ''isinstance'', ''issubclass'', ''iter'', ''len'',
     ''license'', ''list'', ''locals'', ''map'', ''max'', ''memoryview'', ''min'', ''next'',
     ''object'', ''oct'', ''open'', ''ord'', ''pow'', ''print'', ''property'', ''quit'',
     ''range'', ''repr'', ''reversed'', ''round'', ''set'', ''setattr'', ''slice'',
     ''sorted'', ''staticmethod'', ''str'', ''sum'', ''super'', ''tuple'', ''type'',
     ''vars'', ''zip'']"

definition global_name :: "string \<Rightarrow> error + unit" where
  \<comment> \<open>evaluating a name that is not a local of the method\<close>
  "global_name n =
     (if n \<in> set module_globals \<or> n \<in> set builtins then Inr () else Inl (NameError n))"

subsection \<open>Strings\<close>

function py_split_from :: "string \<Rightarrow> string \<Rightarrow> string \<Rightarrow> string list" where
  "py_split_from sep cur [] = [cur]"
| "py_split_from sep cur (c # cs) =
     (if sep \<noteq> [] \<and> take (length sep) (c # cs) = sep
      then cur # py_split_from sep [] (drop (length sep) (c # cs))
      else py_split_from sep (cur @ [c]) cs)"
  by pat_completeness auto
termination
  by (relation "measure (\<lambda>(sep, cur, s). length s)") auto

definition py_split :: "string \<Rightarrow> string \<Rightarrow> string list" where
  \<comment> \<open>\<^verbatim>\<open>s.split(sep)\<close> for a separator that is not empty, as all of the source's are\<close>
  "py_split sep s = py_split_from sep [] s"

fun py_join :: "string \<Rightarrow> string list \<Rightarrow> string" where
  "py_join sep [] = []"
| "py_join sep [x] = x"
| "py_join sep (x # y # ys) = x @ sep @ py_join sep (y # ys)"

definition py_replace :: "string \<Rightarrow> string \<Rightarrow> string \<Rightarrow> string" where
  \<comment> \<open>\<^verbatim>\<open>s.replace(old, new)\<close> for \<open>old\<close> not empty\<close>
  "py_replace old new s = py_join new (py_split old s)"

definition is_space :: "char \<Rightarrow> bool" where
  "is_space c = (c \<in> set [CHR '' '', CHR 0x09, CHR 0x0A, CHR 0x0B, CHR 0x0C, CHR 0x0D])"

fun py_split_ws_from :: "string \<Rightarrow> string \<Rightarrow> string list" where
  "py_split_ws_from cur [] = (if cur = [] then [] else [cur])"
| "py_split_ws_from cur (c # cs) =
     (if is_space c
      then (if cur = [] then py_split_ws_from [] cs else cur # py_split_ws_from [] cs)
      else py_split_ws_from (cur @ [c]) cs)"

definition py_split_ws :: "string \<Rightarrow> string list" where
  \<comment> \<open>\<^verbatim>\<open>s.split()\<close>: the runs of characters between white space\<close>
  "py_split_ws s = py_split_ws_from [] s"

definition py_lower :: "string \<Rightarrow> string" where
  "py_lower s =
     map (\<lambda>c. case map_of (zip ''ABCDEFGHIJKLMNOPQRSTUVWXYZ'' ''abcdefghijklmnopqrstuvwxyz'') c of
                 None \<Rightarrow> c | Some l \<Rightarrow> l) s"

definition digit_chars :: string where
  "digit_chars = ''0123456789''"

fun str_nat :: "nat \<Rightarrow> string" where
  "str_nat n = (if n < 10 then [digit_chars ! n] else str_nat (n div 10) @ [digit_chars ! (n mod 10)])"

declare str_nat.simps [simp del]

definition str_int :: "int \<Rightarrow> string" where
  \<comment> \<open>\<^verbatim>\<open>str(i)\<close> of an integer\<close>
  "str_int i = (if i < 0 then CHR ''-'' # str_nat (nat (- i)) else str_nat (nat i))"

fun digit_value :: "char \<Rightarrow> nat option" where
  "digit_value c = map_of (zip digit_chars [0, 1, 2, 3, 4, 5, 6, 7, 8, 9]) c"

fun nat_of_digits :: "nat \<Rightarrow> string \<Rightarrow> nat option" where
  "nat_of_digits acc [] = Some acc"
| "nat_of_digits acc (c # cs) =
     (case digit_value c of None \<Rightarrow> None | Some d \<Rightarrow> nat_of_digits (10 * acc + d) cs)"

definition py_int :: "string \<Rightarrow> error + int" where
  \<comment> \<open>\<^verbatim>\<open>int(s)\<close> of an optional sign and decimal digits (Python also takes underscores
      between digits and surrounding white space; a SEARCH reply has neither)\<close>
  "py_int s =
     (let (neg, ds) = (case s of [] \<Rightarrow> (False, [])
                        | c # cs \<Rightarrow> if c = CHR ''-'' then (True, cs)
                                   else if c = CHR ''+'' then (False, cs) else (False, s))
      in if ds = [] then Inl (ValueError ''invalid literal for int()'')
         else (case nat_of_digits 0 ds of
                 None \<Rightarrow> Inl (ValueError ''invalid literal for int()'')
               | Some n \<Rightarrow> Inr (if neg then - int n else int n)))"

fun collect :: "(error + 'a) list \<Rightarrow> error + 'a list" where
  \<comment> \<open>a list comprehension whose elements may raise: the first exception ends it\<close>
  "collect [] = Inr []"
| "collect (x # xs) =
     (case x of Inl e \<Rightarrow> Inl e
      | Inr v \<Rightarrow> (case collect xs of Inl e \<Rightarrow> Inl e | Inr vs \<Rightarrow> Inr (v # vs)))"

subsection \<open>The e-mail library\<close>

text \<open>
  \<^verbatim>\<open>email.message_from_bytes(raw_email, policy=default)\<close> reads a payload into a
  tree of headers and parts and never raises. A payload is given here by that tree:
  the headers in order, whether it is multipart, its parts (for each: the content type,
  the file name if it has one, and what \<^verbatim>\<open>get_payload(decode=True)\<close> returns, which
  is \<^verbatim>\<open>None\<close> for a part that is itself multipart), and its own decoded payload.
\<close>

record mime_part =
  content_type :: string
  filename :: "string option"
  part_payload :: "string option"

record email_message =
  headers :: "(string \<times> string) list"
  is_multipart :: bool
  iter_parts :: "mime_part list"
  payload :: "string option"

fun get_header :: "(string \<times> string) list \<Rightarrow> string \<Rightarrow> string option" where
  \<comment> \<open>\<^verbatim>\<open>msg[name]\<close>: the first header of that name, compared without case\<close>
  "get_header [] name = None"
| "get_header ((k, v) # hs) name =
     (if py_lower k = py_lower name then Some v else get_header hs name)"

datatype datetime = Datetime string
  \<comment> \<open>a \<^verbatim>\<open>datetime\<close> object, given by its rendering \<^verbatim>\<open>str(d)\<close>\<close>

datatype json = JString string | JObject "(string \<times> json) list" | JArray "json list"

record pylib =
  parsedate_to_datetime :: "string option \<Rightarrow> error + datetime"
  decode_utf8 :: "string \<Rightarrow> error + string"
  repr_attachments :: "(string \<times> string option) list \<Rightarrow> string"
  json_dumps :: "json \<Rightarrow> int option \<Rightarrow> string"

subsection \<open>Message\<close>

record message =
  msg :: email_message
  id_attr :: "string option"
  From :: "string option"
  To :: "string option"
  subject :: "string option"
  date_sent :: datetime
  date_received :: datetime
  body :: "string option"
  attachments :: "(string \<times> string option) list"
  mailbox_name :: "string option"
  keys :: "string list"

definition decode_payload :: "pylib \<Rightarrow> string option \<Rightarrow> error + string option" where
  \<comment> \<open>\<^verbatim>\<open>get_payload(decode=True).decode('utf-8')\<close>\<close>
  "decode_payload lib p =
     (case p of
        None \<Rightarrow> Inl (AttributeError ''NoneType object has no attribute decode'')
      | Some b \<Rightarrow> (case decode_utf8 lib b of Inl e \<Rightarrow> Inl e | Inr s \<Rightarrow> Inr (Some s)))"

fun first_plain_part :: "pylib \<Rightarrow> mime_part list \<Rightarrow> error + string option" where
  "first_plain_part lib [] = Inr None"
| "first_plain_part lib (part # rest) =
     (if content_type part = ''text/plain'' then decode_payload lib (part_payload part)
      else first_plain_part lib rest)"

definition get_body :: "pylib \<Rightarrow> email_message \<Rightarrow> error + string option" where
  \<comment> \<open>\<^verbatim>\<open>Message._get_body\<close>\<close>
  "get_body lib m =
     (if is_multipart m then first_plain_part lib (iter_parts m)
      else decode_payload lib (payload m))"

definition get_attachments :: "email_message \<Rightarrow> (string \<times> string option) list" where
  \<comment> \<open>\<^verbatim>\<open>Message._get_attachments\<close>\<close>
  "get_attachments m =
     (if is_multipart m
      then concat (map (\<lambda>part. case filename part of
                                  None \<Rightarrow> []
                                | Some name \<Rightarrow> if name = [] then [] else [(name, part_payload part)])
                       (iter_parts m))
      else [])"

definition Message_keys :: "string list" where
  "Message_keys =
     [''id'', ''From'', ''To'', ''subject'', ''date_sent'', ''date_received'', ''attachments'', ''body'']"

definition Message_init :: "pylib \<Rightarrow> email_message \<Rightarrow> string option \<Rightarrow> error + message" where
  \<comment> \<open>\<^verbatim>\<open>Message(raw_email, mailbox=mailbox)\<close>\<close>
  "Message_init lib raw_email mailbox =
     (case parsedate_to_datetime lib (get_header (headers raw_email) ''Date'') of
        Inl e \<Rightarrow> Inl e
      | Inr sent \<Rightarrow>
          (case get_header (headers raw_email) ''Received'' of
             None \<Rightarrow> Inl (AttributeError ''NoneType object has no attribute split'')
           | Some received \<Rightarrow>
               (case parsedate_to_datetime lib
                       (Some (last (py_split '';'' (last (py_split ''; '' received))))) of
                  Inl e \<Rightarrow> Inl e
                | Inr recv \<Rightarrow>
                    (case get_body lib raw_email of
                       Inl e \<Rightarrow> Inl e
                     | Inr b \<Rightarrow>
                         Inr \<lparr> msg = raw_email,
                               id_attr = get_header (headers raw_email) ''Message-ID'',
                               From = get_header (headers raw_email) ''From'',
                               To = get_header (headers raw_email) ''To'',
                               subject = get_header (headers raw_email) ''Subject'',
                               date_sent = sent,
                               date_received = recv,
                               body = b,
                               attachments = get_attachments raw_email,
                               mailbox_name = (case mailbox of None \<Rightarrow> None
                                               | Some n \<Rightarrow> if n = [] then None else Some n),
                               keys = Message_keys \<rparr>))))"

datatype pyval =
    PNone
  | PStr string
  | PDate datetime
  | PAttachments "(string \<times> string option) list"

definition of_optional :: "string option \<Rightarrow> pyval" where
  "of_optional v = (case v of None \<Rightarrow> PNone | Some s \<Rightarrow> PStr s)"

definition getattr_message :: "message \<Rightarrow> string \<Rightarrow> error + pyval" where
  \<comment> \<open>\<^verbatim>\<open>getattr(self, i)\<close> for the names that \<^verbatim>\<open>keys\<close> holds after construction\<close>
  "getattr_message self i =
     (if i = ''id'' then Inr (of_optional (id_attr self))
      else if i = ''From'' then Inr (of_optional (From self))
      else if i = ''To'' then Inr (of_optional (To self))
      else if i = ''subject'' then Inr (of_optional (subject self))
      else if i = ''date_sent'' then Inr (PDate (date_sent self))
      else if i = ''date_received'' then Inr (PDate (date_received self))
      else if i = ''attachments'' then Inr (PAttachments (attachments self))
      else if i = ''body'' then Inr (of_optional (body self))
      else Inl (AttributeError i))"

definition repr_str_list :: "string list \<Rightarrow> string" where
  \<comment> \<open>\<^verbatim>\<open>str\<close> of a list of strings that need no escaping\<close>
  "repr_str_list xs = ''['' @ py_join '', '' (map (\<lambda>x. [CHR 0x27] @ x @ [CHR 0x27]) xs) @ '']''"

definition Message_getitem :: "message \<Rightarrow> string \<Rightarrow> error + pyval" where
  \<comment> \<open>\<^verbatim>\<open>Message.__getitem__\<close>\<close>
  "Message_getitem self i =
     (if i \<in> set (keys self) then getattr_message self i
      else Inl (KeyError (''Message has only '' @ str_int (int (length (keys self)))
                            @ '' allowed keys: '' @ repr_str_list (keys self))))"

definition py_str :: "pylib \<Rightarrow> pyval \<Rightarrow> string" where
  "py_str lib v =
     (case v of PNone \<Rightarrow> ''None'' | PStr s \<Rightarrow> s | PDate (Datetime s) \<Rightarrow> s
      | PAttachments a \<Rightarrow> repr_attachments lib a)"

definition Message_serialize :: "pylib \<Rightarrow> message \<Rightarrow> error + (string \<times> string) list" where
  \<comment> \<open>\<^verbatim>\<open>{ key:str(self[key]) for key in self.keys }\<close>, the dict in insertion order\<close>
  "Message_serialize lib self =
     collect (map (\<lambda>key. case Message_getitem self key of
                            Inl e \<Rightarrow> Inl e | Inr v \<Rightarrow> Inr (key, py_str lib v))
                  (keys self))"

definition dumps_dict :: "pylib \<Rightarrow> (string \<times> string) list \<Rightarrow> int option \<Rightarrow> string" where
  "dumps_dict lib d indent = json_dumps lib (JObject (map (\<lambda>(k, v). (k, JString v)) d)) indent"

definition Message_json :: "pylib \<Rightarrow> message \<Rightarrow> int option \<Rightarrow> error + string" where
  \<comment> \<open>\<^verbatim>\<open>json.dumps(self.serialize()) if not indent else json.dumps(self.serialize(), indent=indent)\<close>:
      in either branch the name \<^verbatim>\<open>json\<close> is evaluated before the call of \<^verbatim>\<open>serialize\<close>\<close>
  "Message_json lib self indent =
     (if indent = None \<or> indent = Some 0
      then (case global_name ''json'' of
              Inl e \<Rightarrow> Inl e
            | Inr _ \<Rightarrow> (case Message_serialize lib self of
                         Inl e \<Rightarrow> Inl e | Inr d \<Rightarrow> Inr (dumps_dict lib d None)))
      else (case global_name ''json'' of
              Inl e \<Rightarrow> Inl e
            | Inr _ \<Rightarrow> (case Message_serialize lib self of
                         Inl e \<Rightarrow> Inl e | Inr d \<Rightarrow> Inr (dumps_dict lib d indent))))"

subsection \<open>Saving attachments\<close>

text \<open>
  \<^verbatim>\<open>str.format\<close> with keyword arguments only: literal text, the escapes \<^verbatim>\<open>{{\<close>
  and \<^verbatim>\<open>}}\<close>, and replacement fields \<^verbatim>\<open>{name}\<close>. A field with a conversion, a
  format specification, an attribute or an index is outside the model.
\<close>

definition lookup_field :: "(string \<times> string) list \<Rightarrow> string \<Rightarrow> error + string" where
  "lookup_field kwargs f =
     (if list_all (\<lambda>c. c \<in> set digit_chars) f
      then Inl (IndexError ''Replacement index out of range for positional args tuple'')
      else if list_ex (\<lambda>c. c \<in> set ''!:.[{'') f then Inl (Unmodelled ''replacement field'')
      else (case map_of kwargs f of None \<Rightarrow> Inl (KeyError f) | Some v \<Rightarrow> Inr v))"

definition prepend :: "string \<Rightarrow> error + string \<Rightarrow> error + string" where
  "prepend v r = (case r of Inl e \<Rightarrow> Inl e | Inr s \<Rightarrow> Inr (v @ s))"

fun py_format_from :: "(string \<times> string) list \<Rightarrow> string option \<Rightarrow> string \<Rightarrow> error + string" where
  "py_format_from kwargs None [] = Inr []"
| "py_format_from kwargs (Some f) [] = Inl (ValueError ''expected } before end of string'')"
| "py_format_from kwargs None (c # cs) =
     (if c = CHR ''{''
      then (case cs of
              [] \<Rightarrow> Inl (ValueError ''Single { encountered in format string'')
            | d # ds \<Rightarrow> if d = CHR ''{'' then prepend [c] (py_format_from kwargs None ds)
                        else py_format_from kwargs (Some []) cs)
      else if c = CHR ''}''
      then (case cs of
              [] \<Rightarrow> Inl (ValueError ''Single } encountered in format string'')
            | d # ds \<Rightarrow> if d = CHR ''}'' then prepend [c] (py_format_from kwargs None ds)
                        else Inl (ValueError ''Single } encountered in format string''))
      else prepend [c] (py_format_from kwargs None cs))"
| "py_format_from kwargs (Some f) (c # cs) =
     (if c = CHR ''}''
      then (case lookup_field kwargs f of
              Inl e \<Rightarrow> Inl e
            | Inr v \<Rightarrow> prepend v (py_format_from kwargs None cs))
      else py_format_from kwargs (Some (f @ [c])) cs)"

definition py_format :: "string \<Rightarrow> (string \<times> string) list \<Rightarrow> error + string" where
  \<comment> \<open>\<^verbatim>\<open>template.format(**kwargs)\<close>\<close>
  "py_format template kwargs = py_format_from kwargs None template"

definition os_path_join :: "string \<Rightarrow> string \<Rightarrow> string" where
  \<comment> \<open>\<^verbatim>\<open>os.path.join(a, b)\<close> of \<^verbatim>\<open>posixpath\<close>\<close>
  "os_path_join a b =
     (if b \<noteq> [] \<and> hd b = CHR ''/'' then b
      else if a = [] \<or> last a = CHR ''/'' then a @ b
      else a @ ''/'' @ b)"

text \<open>
  The filesystem: which paths \<^verbatim>\<open>open(path, 'wb')\<close> can open (the directory exists and
  can be written to), and what each file holds.
\<close>

record filesystem =
  can_open :: "string \<Rightarrow> bool"
  files :: "string \<Rightarrow> string option"

definition default_name_format :: string where
  "default_name_format = ''{short_id}_{name}''"

fun save_loop ::
  "message \<Rightarrow> string \<Rightarrow> string \<Rightarrow> (string \<times> string) list \<Rightarrow> (string \<times> string option) list
     \<Rightarrow> string list \<Rightarrow> filesystem \<Rightarrow> (error + string list) \<times> filesystem" where
  "save_loop self directory name_format format_kwargs [] saved_files fs = (Inr saved_files, fs)"
| "save_loop self directory name_format format_kwargs ((file_name, file_data) # rest) saved_files fs =
     (case id_attr self of
        None \<Rightarrow> (Inl (AttributeError ''NoneType object has no attribute split''), fs)
      | Some ident \<Rightarrow>
          if ''short_id'' \<in> set (map fst format_kwargs) \<or> ''name'' \<in> set (map fst format_kwargs)
          then (Inl (TypeError ''got multiple values for keyword argument''), fs)
          else (case py_format name_format
                       ((''short_id'', drop 1 (hd (py_split ''@'' ident)))
                          # (''name'', file_name) # format_kwargs) of
                  Inl e \<Rightarrow> (Inl e, fs)
                | Inr new_file_name \<Rightarrow>
                    (let file_path = os_path_join directory new_file_name in
                     if \<not> can_open fs file_path then (Inl (OSError file_path), fs)
                     else (case file_data of
                             None \<Rightarrow>
                               (Inl (TypeError ''a bytes-like object is required''),
                                fs\<lparr>files := (files fs)(file_path \<mapsto> [])\<rparr>)
                           | Some data \<Rightarrow>
                               save_loop self directory name_format format_kwargs rest
                                 (saved_files @ [new_file_name])
                                 (fs\<lparr>files := (files fs)(file_path \<mapsto> data)\<rparr>)))))"

definition save_attachments ::
  "message \<Rightarrow> string \<Rightarrow> string \<Rightarrow> (string \<times> string) list \<Rightarrow> filesystem
     \<Rightarrow> (error + string list) \<times> filesystem" where
  \<comment> \<open>\<^verbatim>\<open>Message.save_attachments(directory, name_format, format_kwargs)\<close>\<close>
  "save_attachments self directory name_format format_kwargs fs =
     save_loop self directory name_format format_kwargs (attachments self) [] fs"

subsection \<open>The connection\<close>

text \<open>
  \<^verbatim>\<open>imaplib\<close> returns from a command the pair \<^verbatim>\<open>(typ, data)\<close>: the status and a list
  whose elements are \<^verbatim>\<open>bytes\<close>, a tuple for a literal (the second component of the
  tuple of an RFC822 fetch is the payload of a message), or \<^verbatim>\<open>None\<close>; or it raises.
  The connection is given by its replies to the four commands the package sends;
  SEARCH and FETCH are answered for the folder that is selected.
\<close>

datatype item = Bytes string | Tuple string email_message | Absent

datatype reply = Raises error | Reply string "item list"

record imap =
  list_reply :: reply
  select_reply :: "string \<Rightarrow> reply"
  search_reply :: "string \<Rightarrow> reply"
  fetch_reply :: "string \<Rightarrow> string \<Rightarrow> reply"

record mailer =
  username :: string
  password :: string
  default_box :: string
  host :: string
  port :: int
  connection :: imap
  selected :: "string option"

definition select :: "mailer \<Rightarrow> string \<Rightarrow> (error + string) \<times> mailer" where
  \<comment> \<open>\<^verbatim>\<open>self.select(mailbox)\<close>: \<^verbatim>\<open>imaplib\<close> enters the state SELECTED on the status OK
      and falls back to AUTH, with no folder selected, on any other\<close>
  "select self mailbox =
     (case select_reply (connection self) mailbox of
        Raises e \<Rightarrow> (Inl e, self)
      | Reply typ dat \<Rightarrow>
          (Inr typ, self\<lparr>selected := (if typ = ''OK'' then Some mailbox else None)\<rparr>))"

definition search_all :: "mailer \<Rightarrow> reply" where
  \<comment> \<open>\<^verbatim>\<open>self.search(None, 'ALL')\<close>: refused by \<^verbatim>\<open>imaplib\<close> itself outside the state SELECTED\<close>
  "search_all self =
     (case selected self of
        None \<Rightarrow> Raises (IMAP4_error ''command SEARCH illegal in state AUTH'')
      | Some mailbox \<Rightarrow> search_reply (connection self) mailbox)"

definition fetch :: "mailer \<Rightarrow> string \<Rightarrow> reply" where
  \<comment> \<open>\<^verbatim>\<open>self.fetch(message_set, '(RFC822)')\<close>\<close>
  "fetch self message_set =
     (case selected self of
        None \<Rightarrow> Raises (IMAP4_error ''command FETCH illegal in state AUTH'')
      | Some mailbox \<Rightarrow> fetch_reply (connection self) mailbox message_set)"

subsection \<open>Mailer\<close>

definition leaf_name :: "pylib \<Rightarrow> item \<Rightarrow> error + string" where
  \<comment> \<open>\<^verbatim>\<open>mailbox.decode().replace('"', '').split(' | ')[-1].split(' / ')[-1]\<close>\<close>
  "leaf_name lib mailbox =
     (case mailbox of
        Bytes b \<Rightarrow>
          (case decode_utf8 lib b of
             Inl e \<Rightarrow> Inl e
           | Inr s \<Rightarrow> Inr (last (py_split '' / '' (last (py_split '' | '' (py_replace [CHR 0x22] [] s))))))
      | Tuple a b \<Rightarrow> Inl (AttributeError ''tuple object has no attribute decode'')
      | Absent \<Rightarrow> Inl (AttributeError ''NoneType object has no attribute decode''))"

definition get_mailboxes :: "pylib \<Rightarrow> mailer \<Rightarrow> error + string list" where
  "get_mailboxes lib self =
     (case list_reply (connection self) of
        Raises e \<Rightarrow> Inl e
      | Reply rv mailboxes \<Rightarrow>
          if rv = ''OK'' then collect (map (leaf_name lib) mailboxes) else Inr [])"

datatype found = Ids "int list" | Status string

definition messages :: "mailer \<Rightarrow> error + found" where
  \<comment> \<open>the property \<^verbatim>\<open>Mailer.messages\<close>\<close>
  "messages self =
     (case search_all self of
        Raises e \<Rightarrow> Inl e
      | Reply rv data \<Rightarrow>
          if rv = ''OK''
          then (case data of
                  [] \<Rightarrow> Inl (IndexError ''list index out of range'')
                | Bytes b # _ \<Rightarrow>
                    (case collect (map py_int (py_split_ws b)) of
                       Inl e \<Rightarrow> Inl e | Inr ids \<Rightarrow> Inr (Ids ids))
                | Tuple a b # _ \<Rightarrow> Inl (AttributeError ''tuple object has no attribute split'')
                | Absent # _ \<Rightarrow> Inl (AttributeError ''NoneType object has no attribute split''))
          else Inr (Status rv))"

definition len_messages :: "mailer \<Rightarrow> error + int" where
  \<comment> \<open>\<^verbatim>\<open>len(self.messages)\<close>: the number of ids, or of characters of the status\<close>
  "len_messages self =
     (case messages self of
        Inl e \<Rightarrow> Inl e
      | Inr (Ids ids) \<Rightarrow> Inr (int (length ids))
      | Inr (Status rv) \<Rightarrow> Inr (int (length rv)))"

definition get_messages :: "pylib \<Rightarrow> mailer \<Rightarrow> string \<Rightarrow> (error + found) \<times> mailer" where
  "get_messages lib self mbox_name =
     (case get_mailboxes lib self of
        Inl e \<Rightarrow> (Inl e, self)
      | Inr mailboxes \<Rightarrow>
          if mbox_name \<in> set mailboxes
          then (case select self mbox_name of
                  (Inl e, s1) \<Rightarrow> (Inl e, s1)
                | (Inr _, s1) \<Rightarrow>
                    (case messages s1 of
                       Inl e \<Rightarrow> (Inl e, s1)
                     | Inr msgs \<Rightarrow>
                         (case select s1 (default_box s1) of
                            (Inl e, s2) \<Rightarrow> (Inl e, s2)
                          | (Inr _, s2) \<Rightarrow> (Inr msgs, s2))))
          else (Inl (ValueError (''Mailer.messages method takes a string mailbox name, ''
                       @ ''that exists in list from Mailer.get_mailboxes() method'')), self))"

record mailbox =
  name :: string

datatype pyobj =
    Str_obj string
  | Message_obj message
  | Message_list "message list"
  | MailBox_obj mailbox
  | None_obj

definition requires_text :: "mailer \<Rightarrow> string" where
  "requires_text self =
     '' requires a string mailbox name as a key or an integer message index in ''
       @ default_box self @ '', that exists in list from Mailer.get_mailboxes() method''"

definition raise_requires :: "mailer \<Rightarrow> error" where
  \<comment> \<open>\<^verbatim>\<open>raise ValueError(f'{method_name} requires ...')\<close>: the name \<^verbatim>\<open>method_name\<close>
      is evaluated to build the text\<close>
  "raise_requires self =
     (case global_name ''method_name'' of
        Inl e \<Rightarrow> e
      | Inr _ \<Rightarrow> ValueError (requires_text self))"

definition payload_of_first :: "item list \<Rightarrow> error + email_message" where
  \<comment> \<open>\<^verbatim>\<open>data[0][1]\<close>, as far as \<^verbatim>\<open>Message\<close> can read it\<close>
  "payload_of_first data =
     (case data of
        [] \<Rightarrow> Inl (IndexError ''list index out of range'')
      | Tuple a raw # _ \<Rightarrow> Inr raw
      | Bytes b # _ \<Rightarrow>
          if length b < 2 then Inl (IndexError ''index out of range'')
          else Inl (AttributeError ''int object has no attribute decode'')
      | Absent # _ \<Rightarrow> Inl (TypeError ''NoneType object is not subscriptable''))"

definition get_message :: "pylib \<Rightarrow> mailer \<Rightarrow> int \<Rightarrow> string \<Rightarrow> (error + pyobj) \<times> mailer" where
  "get_message lib self msg_id mbox_name =
     (case get_mailboxes lib self of
        Inl e \<Rightarrow> (Inl e, self)
      | Inr mailboxes \<Rightarrow>
          if mbox_name \<in> set mailboxes
          then (case select self mbox_name of
                  (Inl e, s1) \<Rightarrow> (Inl e, s1)
                | (Inr _, s1) \<Rightarrow>
                    (case (if msg_id \<le> 0
                           then (case len_messages s1 of
                                   Inl e \<Rightarrow> Inl e | Inr n \<Rightarrow> Inr (msg_id + n))
                           else Inr msg_id) of
                       Inl e \<Rightarrow> (Inl e, s1)
                     | Inr msg_id1 \<Rightarrow>
                         (case fetch s1 (str_int msg_id1) of
                            Raises e \<Rightarrow> (Inl e, s1)
                          | Reply rv data \<Rightarrow>
                              if rv = ''OK''
                              then (case payload_of_first data of
                                      Inl e \<Rightarrow> (Inl e, s1)
                                    | Inr raw \<Rightarrow>
                                        (case Message_init lib raw (Some mbox_name) of
                                           Inl e \<Rightarrow> (Inl e, s1)
                                         | Inr m \<Rightarrow> (Inr (Message_obj m), s1)))
                              else (case select s1 (default_box s1) of
                                      (Inl e, s2) \<Rightarrow> (Inl e, s2)
                                    | (Inr _, s2) \<Rightarrow> (Inr (Str_obj rv), s2)))))
          else (Inl (raise_requires self), self))"

fun slice_items :: "pylib \<Rightarrow> string \<Rightarrow> int \<Rightarrow> nat \<Rightarrow> item list \<Rightarrow> error + message list" where
  \<comment> \<open>the comprehension over \<^verbatim>\<open>enumerate(list_data)\<close>, from position \<open>i\<close> on\<close>
  "slice_items lib mbox_name step i [] = Inr []"
| "slice_items lib mbox_name step i (d # list_data) =
     (case d of
        Tuple a raw \<Rightarrow>
          if step = 0 then Inl (ZeroDivisionError ''integer modulo by zero'')
          else if int i mod step = 0
          then (case Message_init lib raw (Some mbox_name) of
                  Inl e \<Rightarrow> Inl e
                | Inr m \<Rightarrow>
                    (case slice_items lib mbox_name step (Suc i) list_data of
                       Inl e \<Rightarrow> Inl e | Inr ms \<Rightarrow> Inr (m # ms)))
          else slice_items lib mbox_name step (Suc i) list_data
      | Bytes b \<Rightarrow> slice_items lib mbox_name step (Suc i) list_data
      | Absent \<Rightarrow> slice_items lib mbox_name step (Suc i) list_data)"

definition from_end :: "mailer \<Rightarrow> int option \<Rightarrow> error + int" where
  \<comment> \<open>\<^verbatim>\<open>if x <= 0: x += len(self.messages)\<close>; a bound that a slice left out is \<^verbatim>\<open>None\<close>\<close>
  "from_end self x =
     (case x of
        None \<Rightarrow> Inl (TypeError ''<= not supported between instances of NoneType and int'')
      | Some v \<Rightarrow>
          if v \<le> 0
          then (case len_messages self of Inl e \<Rightarrow> Inl e | Inr n \<Rightarrow> Inr (v + n))
          else Inr v)"

definition slice_messages ::
  "pylib \<Rightarrow> mailer \<Rightarrow> int option \<Rightarrow> int option \<Rightarrow> string \<Rightarrow> int \<Rightarrow> (error + pyobj) \<times> mailer" where
  \<comment> \<open>\<^verbatim>\<open>slice_messages(start, end, mailbox_name, step)\<close>; \<open>stop\<close> is the source's \<^verbatim>\<open>end\<close>\<close>
  "slice_messages lib self start stop mbox_name step =
     (case get_mailboxes lib self of
        Inl e \<Rightarrow> (Inl e, self)
      | Inr mailboxes \<Rightarrow>
          if mbox_name \<in> set mailboxes
          then (case select self mbox_name of
                  (Inl e, s1) \<Rightarrow> (Inl e, s1)
                | (Inr _, s1) \<Rightarrow>
                    (case from_end s1 start of
                       Inl e \<Rightarrow> (Inl e, s1)
                     | Inr start1 \<Rightarrow>
                         (case from_end s1 stop of
                            Inl e \<Rightarrow> (Inl e, s1)
                          | Inr stop1 \<Rightarrow>
                              (case len_messages s1 of
                                 Inl e \<Rightarrow> (Inl e, s1)
                               | Inr n \<Rightarrow>
                                   (case fetch s1 (str_int (max 1 start1) @ '':'' @ str_int (min n stop1)) of
                                      Raises e \<Rightarrow> (Inl e, s1)
                                    | Reply rv list_data \<Rightarrow>
                                        if rv = ''OK''
                                        then (case slice_items lib mbox_name step 0 list_data of
                                                Inl e \<Rightarrow> (Inl e, s1)
                                              | Inr ms \<Rightarrow> (Inr (Message_list ms), s1))
                                        else (case select s1 (default_box s1) of
                                                (Inl e, s2) \<Rightarrow> (Inl e, s2)
                                              | (Inr _, s2) \<Rightarrow> (Inr (Str_obj rv), s2)))))))
          else (Inl (raise_requires self), self))"

definition serialize_each :: "found \<Rightarrow> error + (string \<times> string) list list" where
  \<comment> \<open>\<^verbatim>\<open>[ msg.serialize() for msg in self.messages ]\<close>: the elements are the integers of
      the search, or the characters of the status; neither has a method \<^verbatim>\<open>serialize\<close>\<close>
  "serialize_each msgs =
     (case msgs of
        Ids [] \<Rightarrow> Inr []
      | Ids (i # _) \<Rightarrow> Inl (AttributeError ''int object has no attribute serialize'')
      | Status [] \<Rightarrow> Inr []
      | Status (c # _) \<Rightarrow> Inl (AttributeError ''str object has no attribute serialize''))"

definition Mailer_serialize :: "mailer \<Rightarrow> error + (string \<times> string) list list" where
  \<comment> \<open>\<^verbatim>\<open>Mailer.serialize\<close>\<close>
  "Mailer_serialize self =
     (case messages self of Inl e \<Rightarrow> Inl e | Inr msgs \<Rightarrow> serialize_each msgs)"

definition dumps_list :: "pylib \<Rightarrow> (string \<times> string) list list \<Rightarrow> int option \<Rightarrow> string" where
  "dumps_list lib ds indent =
     json_dumps lib (JArray (map (\<lambda>d. JObject (map (\<lambda>(k, v). (k, JString v)) d)) ds)) indent"

definition Mailer_json :: "pylib \<Rightarrow> mailer \<Rightarrow> int option \<Rightarrow> error + string" where
  \<comment> \<open>\<^verbatim>\<open>Mailer.json\<close>, written as \<^verbatim>\<open>Message.json\<close> is\<close>
  "Mailer_json lib self indent =
     (if indent = None \<or> indent = Some 0
      then (case global_name ''json'' of
              Inl e \<Rightarrow> Inl e
            | Inr _ \<Rightarrow> (case Mailer_serialize self of
                         Inl e \<Rightarrow> Inl e | Inr ds \<Rightarrow> Inr (dumps_list lib ds None)))
      else (case global_name ''json'' of
              Inl e \<Rightarrow> Inl e
            | Inr _ \<Rightarrow> (case Mailer_serialize self of
                         Inl e \<Rightarrow> Inl e | Inr ds \<Rightarrow> Inr (dumps_list lib ds indent))))"

subsection \<open>MailBox\<close>

text \<open>
  A \<^verbatim>\<open>MailBox\<close> holds its name and a reference to its mailer; the mailer is passed
  to each operation, which returns it as the call leaves it.
\<close>

datatype key = Key_str string | Key_int int | Key_slice "int option" "int option" "int option" | Key_other

definition MailBox_getitem :: "pylib \<Rightarrow> mailbox \<Rightarrow> mailer \<Rightarrow> key \<Rightarrow> (error + pyobj) \<times> mailer" where
  \<comment> \<open>\<^verbatim>\<open>MailBox.__getitem__\<close>\<close>
  "MailBox_getitem lib self m msg_id =
     (case msg_id of
        Key_int i \<Rightarrow> get_message lib m i (name self)
      | Key_slice start stop step \<Rightarrow>
          slice_messages lib m start stop (name self) (case step of None \<Rightarrow> 1 | Some st \<Rightarrow> st)
      | Key_str s \<Rightarrow> (Inr None_obj, m)
      | Key_other \<Rightarrow> (Inr None_obj, m))"

definition MailBox_get_messages :: "pylib \<Rightarrow> mailbox \<Rightarrow> mailer \<Rightarrow> (error + found) \<times> mailer" where
  "MailBox_get_messages lib self m = get_messages lib m (name self)"

definition MailBox_serialize ::
  "pylib \<Rightarrow> mailbox \<Rightarrow> mailer \<Rightarrow> (error + (string \<times> string) list list) \<times> mailer" where
  "MailBox_serialize lib self m =
     (case MailBox_get_messages lib self m of
        (Inl e, m1) \<Rightarrow> (Inl e, m1)
      | (Inr msgs, m1) \<Rightarrow> (serialize_each msgs, m1))"

definition MailBox_json ::
  "pylib \<Rightarrow> mailbox \<Rightarrow> mailer \<Rightarrow> int option \<Rightarrow> (error + string) \<times> mailer" where
  "MailBox_json lib self m indent =
     (if indent = None \<or> indent = Some 0
      then (case global_name ''json'' of
              Inl e \<Rightarrow> (Inl e, m)
            | Inr _ \<Rightarrow> (case MailBox_serialize lib self m of
                         (Inl e, m1) \<Rightarrow> (Inl e, m1)
                       | (Inr ds, m1) \<Rightarrow> (Inr (dumps_list lib ds None), m1)))
      else (case global_name ''json'' of
              Inl e \<Rightarrow> (Inl e, m)
            | Inr _ \<Rightarrow> (case MailBox_serialize lib self m of
                         (Inl e, m1) \<Rightarrow> (Inl e, m1)
                       | (Inr ds, m1) \<Rightarrow> (Inr (dumps_list lib ds indent), m1))))"

subsection \<open>Indexing a mailer\<close>

definition err_text :: "mailer \<Rightarrow> string" where
  "err_text self =
     ''Mailer.__geitem__ requires a string mailbox name as a key or an integer message index in ''
       @ default_box self @ '', that exists in list from Mailer.get_mailboxes() method''"

definition Mailer_getitem :: "pylib \<Rightarrow> mailer \<Rightarrow> key \<Rightarrow> (error + pyobj) \<times> mailer" where
  \<comment> \<open>\<^verbatim>\<open>Mailer.__getitem__\<close>\<close>
  "Mailer_getitem lib self mailbox =
     (case mailbox of
        Key_str s \<Rightarrow>
          (let s1 = (if py_lower s = ''inbox'' then ''INBOX'' else s) in
           case get_mailboxes lib self of
             Inl e \<Rightarrow> (Inl e, self)
           | Inr mailboxes \<Rightarrow>
               if s1 \<in> set mailboxes then (Inr (MailBox_obj \<lparr>name = s1\<rparr>), self)
               else (Inl (KeyError (err_text self)), self))
      | Key_slice start stop step \<Rightarrow>
          slice_messages lib self start stop (default_box self)
            (case step of None \<Rightarrow> 1 | Some st \<Rightarrow> st)
      | Key_int i \<Rightarrow> MailBox_getitem lib \<lparr>name = default_box self\<rparr> self (Key_int i)
      | Key_other \<Rightarrow> (Inl (ValueError (err_text self)), self))"

subsection \<open>An example account\<close>

text \<open>
  A server that answers as RFC 3501 asks, for the examples below: LIST names each folder,
  SELECT accepts the folders it has, SEARCH ALL numbers the messages of the folder from 1,
  and FETCH of \<open>a\<close> or \<open>a:b\<close> within the folder returns, for each message, the tuple
  of its literal followed by the closing parenthesis, as \<^verbatim>\<open>imaplib\<close> hands it over.
\<close>

definition example_email :: "string \<Rightarrow> email_message" where
  "example_email ident =
     \<lparr> headers =
         [(''Message-ID'', ''<'' @ ident @ ''@mail.example>''),
          (''From'', ''ann@mail.example''), (''To'', ''bob@mail.example''),
          (''Subject'', ''hello''),
          (''Date'', ''Mon, 01 Jan 2024 10:00:00 +0000''),
          (''Received'', ''from mx.mail.example by mail.example; Mon, 01 Jan 2024 10:00:05 +0000'')],
       is_multipart = False, iter_parts = [], payload = Some ''text'' \<rparr>"

definition example_message :: "string \<Rightarrow> string \<Rightarrow> message" where
  \<comment> \<open>what \<^verbatim>\<open>Message\<close> makes of that payload, fetched from the folder \<open>mbox_name\<close>\<close>
  "example_message ident mbox_name =
     \<lparr> msg = example_email ident,
       id_attr = Some (''<'' @ ident @ ''@mail.example>''),
       From = Some ''ann@mail.example'',
       To = Some ''bob@mail.example'',
       subject = Some ''hello'',
       date_sent = Datetime ''Mon, 01 Jan 2024 10:00:00 +0000'',
       date_received = Datetime ''Mon, 01 Jan 2024 10:00:05 +0000'',
       body = Some ''text'',
       attachments = [],
       mailbox_name = Some mbox_name,
       keys = Message_keys \<rparr>"

definition example_lib :: pylib where
  "example_lib =
     \<lparr> parsedate_to_datetime =
         (\<lambda>d. case d of None \<Rightarrow> Inl (TypeError ''cannot parse None'') | Some s \<Rightarrow> Inr (Datetime s)),
       decode_utf8 = Inr,
       repr_attachments = (\<lambda>a. ''[...]''),
       json_dumps = (\<lambda>j indent. ''...'') \<rparr>"

fun rfc822_items :: "int \<Rightarrow> email_message list \<Rightarrow> item list" where
  "rfc822_items i [] = []"
| "rfc822_items i (raw # rest) =
     Tuple (str_int i @ '' (RFC822 {...}'') raw # Bytes '')'' # rfc822_items (i + 1) rest"

fun numbers_from :: "int \<Rightarrow> 'a list \<Rightarrow> string list" where
  "numbers_from i [] = []"
| "numbers_from i (x # xs) = str_int i # numbers_from (i + 1) xs"

definition fetch_range :: "email_message list \<Rightarrow> string \<Rightarrow> reply" where
  "fetch_range ms message_set =
     (case collect (map py_int (py_split '':'' message_set)) of
        Inr [a] \<Rightarrow>
          if 1 \<le> a \<and> a \<le> int (length ms)
          then Reply ''OK'' (rfc822_items a (take 1 (drop (nat (a - 1)) ms)))
          else Reply ''NO'' [Bytes ''FETCH failed'']
      | Inr [a, b] \<Rightarrow>
          if 1 \<le> a \<and> a \<le> b \<and> b \<le> int (length ms)
          then Reply ''OK'' (rfc822_items a (take (nat (b - a + 1)) (drop (nat (a - 1)) ms)))
          else Reply ''NO'' [Bytes ''FETCH failed'']
      | _ \<Rightarrow> Raises (IMAP4_error ''FETCH command error: BAD''))"

definition example_connection :: "(string \<times> email_message list) list \<Rightarrow> imap" where
  "example_connection folders =
     \<lparr> list_reply =
         Reply ''OK'' (map (\<lambda>(n, ms). Bytes (''('' @ [CHR 0x5C] @ ''HasNoChildren) '' @ [CHR 0x22] @ ''/'' @ [CHR 0x22]
                                              @ '' '' @ [CHR 0x22] @ n @ [CHR 0x22])) folders),
       select_reply =
         (\<lambda>n. if n \<in> set (map fst folders) then Reply ''OK'' [Bytes ''SELECT completed'']
              else Reply ''NO'' [Bytes ''no such mailbox'']),
       search_reply =
         (\<lambda>n. case map_of folders n of
                 None \<Rightarrow> Reply ''NO'' [Bytes ''no such mailbox'']
               | Some ms \<Rightarrow> Reply ''OK'' [Bytes (py_join '' '' (numbers_from 1 ms))]),
       fetch_reply =
         (\<lambda>n message_set. case map_of folders n of
                 None \<Rightarrow> Reply ''NO'' [Bytes ''no such mailbox'']
               | Some ms \<Rightarrow> fetch_range ms message_set) \<rparr>"

definition example_mailer :: "(string \<times> email_message list) list \<Rightarrow> mailer" where
  \<comment> \<open>a mailer as its constructor leaves it: logged in, the default folder selected\<close>
  "example_mailer folders =
     \<lparr> username = ''ann'', password = ''secret'', default_box = ''INBOX'',
       host = ''imap.mail.example'', port = 993,
       connection = example_connection folders, selected = Some ''INBOX'' \<rparr>"

definition three_folders :: "(string \<times> email_message list) list" where
  "three_folders =
     [(''INBOX'', map example_email [''m1'', ''m2'', ''m3'']),
      (''Sent'', map example_email [''s1'']),
      (''Trash'', [])]"

definition ten_messages :: "(string \<times> email_message list) list" where
  "ten_messages =
     [(''INBOX'', map example_email
         [''a1'', ''a2'', ''a3'', ''a4'', ''a5'', ''a6'', ''a7'', ''a8'', ''a9'', ''a10''])]"

definition report_message :: message where
  \<comment> \<open>a message with the id \<open><abc123@mail.example>\<close> and one attachment\<close>
  "report_message = (example_message ''abc123'' ''INBOX'')\<lparr>attachments := [(''report.pdf'', Some ''%PDF-1.4'')]\<rparr>"

definition example_fs :: filesystem where
  \<comment> \<open>the directory \<open>/tmp/out\<close> exists, can be written to and is empty\<close>
  "example_fs = \<lparr> can_open = (\<lambda>path. take 9 path = ''/tmp/out/''), files = (\<lambda>path. None) \<rparr>"

subsection \<open>What the specification speaks of\<close>

definition returned_id :: "(error + pyobj) \<times> mailer \<Rightarrow> string option option" where
  \<comment> \<open>the id of the message a call returned, if it returned a message\<close>
  "returned_id r = (case fst r of Inr (Message_obj m) \<Rightarrow> Some (id_attr m) | _ \<Rightarrow> None)"

definition payloads :: "item list \<Rightarrow> email_message list" where
  \<comment> \<open>the messages of a fetched result, in fetched order\<close>
  "payloads list_data = concat (map (\<lambda>d. case d of Tuple a raw \<Rightarrow> [raw] | _ \<Rightarrow> []) list_data)"

definition subsequence_at :: "int \<Rightarrow> 'a list \<Rightarrow> 'a list" where
  \<comment> \<open>the subsequence at the positions \<open>0, step, 2 * step, ...\<close> of a range of messages\<close>
  "subsequence_at step xs = map snd (filter (\<lambda>(i, x). int i mod step = 0) (enumerate 0 xs))"

definition short_id :: "string \<Rightarrow> string" where
  \<comment> \<open>the part of a message id before the first \<open>@\<close>, without its first character\<close>
  "short_id ident = drop 1 (takeWhile (\<lambda>c. c \<noteq> CHR ''@'') ident)"

section \<open>Properties\<close>

subsection \<open>The unbound names\<close>

lemma global_name_json: "global_name ''json'' = Inl (NameError ''json'')"
  by (simp add: global_name_def module_globals_def typing_all_def builtins_def)

lemma global_name_method_name: "global_name ''method_name'' = Inl (NameError ''method_name'')"
  by (simp add: global_name_def module_globals_def typing_all_def builtins_def)

lemma raise_requires_NameError: "raise_requires self = NameError ''method_name''"
  by (simp add: raise_requires_def global_name_method_name)

subsection \<open>The example account, evaluated\<close>

lemmas string_defs =
  py_split_def py_replace_def py_split_ws_def is_space_def py_lower_def str_int_def
  str_nat.simps digit_chars_def py_int_def

lemma example_mailer_fields:
  "connection (example_mailer fs) = example_connection fs"
  "default_box (example_mailer fs) = ''INBOX''"
  "selected (example_mailer fs) = Some ''INBOX''"
  "(example_mailer fs)\<lparr>selected := Some ''INBOX''\<rparr> = example_mailer fs"
  by (simp_all add: example_mailer_def)

lemma example_list_reply:
  "list_reply (example_connection three_folders) =
     Reply ''OK''
       [Bytes (''('' @ [CHR 0x5C] @ ''HasNoChildren) '' @ [CHR 0x22] @ ''/'' @ [CHR 0x22] @ '' ''
                 @ [CHR 0x22] @ ''INBOX'' @ [CHR 0x22]),
        Bytes (''('' @ [CHR 0x5C] @ ''HasNoChildren) '' @ [CHR 0x22] @ ''/'' @ [CHR 0x22] @ '' ''
                 @ [CHR 0x22] @ ''Sent'' @ [CHR 0x22]),
        Bytes (''('' @ [CHR 0x5C] @ ''HasNoChildren) '' @ [CHR 0x22] @ ''/'' @ [CHR 0x22] @ '' ''
                 @ [CHR 0x22] @ ''Trash'' @ [CHR 0x22])]"
  by (simp add: example_connection_def three_folders_def)

lemma example_select_reply:
  "select_reply (example_connection three_folders) ''INBOX'' = Reply ''OK'' [Bytes ''SELECT completed'']"
  "select_reply (example_connection three_folders) ''Sent'' = Reply ''OK'' [Bytes ''SELECT completed'']"
  by (simp_all add: example_connection_def three_folders_def)

lemma example_search_reply:
  "search_reply (example_connection three_folders) ''INBOX'' = Reply ''OK'' [Bytes ''1 2 3'']"
  "search_reply (example_connection three_folders) ''Sent'' = Reply ''OK'' [Bytes ''1'']"
  by (simp_all add: example_connection_def three_folders_def str_int_def str_nat.simps digit_chars_def)

lemma example_mailboxes:
  "get_mailboxes example_lib (example_mailer three_folders) = Inr [''INBOX'', ''Sent'', ''Trash'']"
  by (simp add: get_mailboxes_def leaf_name_def example_mailer_fields example_list_reply
        example_lib_def string_defs)

lemma example_ids:
  "collect (map py_int (py_split_ws ''1 2 3'')) = Inr [1, 2, 3]"
  "collect (map py_int (py_split_ws ''1'')) = Inr [1]"
  by (simp_all add: string_defs)

lemma example_messages:
  "messages (example_mailer three_folders) = Inr (Ids [1, 2, 3])"
  by (simp add: messages_def search_all_def example_mailer_fields example_search_reply example_ids)

subsection \<open>Serialization\<close>

text \<open>
  C3. \<^verbatim>\<open>Mailer.serialize()\<close> is claimed to return one mapping for each message of the
  default folder's search result. It calls \<^verbatim>\<open>serialize\<close> on the elements of that
  result, which are integers: with three messages in the default folder, and the search
  answered OK, it raises \<^verbatim>\<open>AttributeError\<close>.
\<close>

theorem Mailer_serialize_raises:
  "messages (example_mailer three_folders) = Inr (Ids [1, 2, 3]) \<and>
   Mailer_serialize (example_mailer three_folders)
     = Inl (AttributeError ''int object has no attribute serialize'')"
  by (simp add: Mailer_serialize_def serialize_each_def example_messages)

text \<open>
  C5. \<^verbatim>\<open>json(indent)\<close> of a message, a mailbox and a mailer is claimed to return the
  JSON encoding of \<^verbatim>\<open>serialize()\<close>. The module never imports \<^verbatim>\<open>json\<close>: for every
  object and every indentation the call raises \<^verbatim>\<open>NameError\<close>.
\<close>

theorem json_raises_NameError:
  "Message_json lib self indent = Inl (NameError ''json'') \<and>
   fst (MailBox_json lib box m indent) = Inl (NameError ''json'') \<and>
   Mailer_json lib m indent = Inl (NameError ''json'')"
  by (simp add: Message_json_def MailBox_json_def Mailer_json_def global_name_json)

subsection \<open>A folder the account does not have\<close>

lemma get_messages_unknown:
  "get_mailboxes lib self = Inr boxes \<Longrightarrow> f \<notin> set boxes \<Longrightarrow>
   get_messages lib self f =
     (Inl (ValueError (''Mailer.messages method takes a string mailbox name, ''
             @ ''that exists in list from Mailer.get_mailboxes() method'')), self)"
  by (simp add: get_messages_def)

lemma get_message_unknown:
  "get_mailboxes lib self = Inr boxes \<Longrightarrow> f \<notin> set boxes \<Longrightarrow>
   get_message lib self msg_id f = (Inl (NameError ''method_name''), self)"
  by (simp add: get_message_def raise_requires_NameError)

lemma slice_messages_unknown:
  "get_mailboxes lib self = Inr boxes \<Longrightarrow> f \<notin> set boxes \<Longrightarrow>
   slice_messages lib self start stop f step = (Inl (NameError ''method_name''), self)"
  by (simp add: slice_messages_def raise_requires_NameError)

text \<open>
  C4. With a folder name that \<^verbatim>\<open>get_mailboxes()\<close> does not list, all three calls are
  claimed to fail with the error that names the valid-folder requirement.
  \<^verbatim>\<open>get_messages\<close> does; \<^verbatim>\<open>get_message\<close> and \<^verbatim>\<open>slice_messages\<close> build
  their text from the unbound name \<^verbatim>\<open>method_name\<close> and raise \<^verbatim>\<open>NameError\<close> instead.
\<close>

theorem unknown_folder_errors:
  "get_mailboxes example_lib (example_mailer three_folders) = Inr [''INBOX'', ''Sent'', ''Trash''] \<and>
   get_messages example_lib (example_mailer three_folders) ''Drafts''
     = (Inl (ValueError (''Mailer.messages method takes a string mailbox name, ''
               @ ''that exists in list from Mailer.get_mailboxes() method'')),
        example_mailer three_folders) \<and>
   get_message example_lib (example_mailer three_folders) 1 ''Drafts''
     = (Inl (NameError ''method_name''), example_mailer three_folders) \<and>
   slice_messages example_lib (example_mailer three_folders) (Some 1) (Some 2) ''Drafts'' 1
     = (Inl (NameError ''method_name''), example_mailer three_folders)"
  using get_messages_unknown [OF example_mailboxes, of "''Drafts''"]
        get_message_unknown [OF example_mailboxes, of "''Drafts''" 1]
        slice_messages_unknown [OF example_mailboxes, of "''Drafts''" "Some 1" "Some 2" 1]
  by (simp add: example_mailboxes)

subsection \<open>Selecting folders\<close>

lemma messages_unselected:
  "selected s = None \<Longrightarrow> messages s = Inl (IMAP4_error ''command SEARCH illegal in state AUTH'')"
  by (simp add: messages_def search_all_def)

lemma fetch_unselected:
  "selected s = None \<Longrightarrow> fetch s ms = Raises (IMAP4_error ''command FETCH illegal in state AUTH'')"
  by (simp add: fetch_def)

lemma get_messages_returns:
  assumes "get_messages lib self f = (Inr msgs, s')"
  shows "\<exists>dat. select_reply (connection self) f = Reply ''OK'' dat"
    and "messages (self\<lparr>selected := Some f\<rparr>) = Inr msgs"
    and "s' = snd (select (self\<lparr>selected := Some f\<rparr>) (default_box self))"
  using assms
  by (auto simp: get_messages_def select_def messages_unselected
           split: sum.splits if_splits reply.splits prod.splits)

lemma select_OK:
  "select_reply (connection self) f = Reply ''OK'' dat \<Longrightarrow>
   select self f = (Inr ''OK'', self\<lparr>selected := Some f\<rparr>)"
  by (simp add: select_def)

lemma len_messages_Ids:
  "messages s = Inr (Ids ids) \<Longrightarrow> len_messages s = Inr (int (length ids))"
  by (simp add: len_messages_def)

text \<open>
  C1 (as amended). For a folder \<open>f\<close> of \<^verbatim>\<open>get_mailboxes()\<close> that holds \<open>count\<close> messages
  and \<open>0 < n \<le> count\<close>, \<^verbatim>\<open>get_message(n - count, f)\<close> is the call
  \<^verbatim>\<open>get_message(n, f)\<close>: the same result, hence a message of the same id, and the same
  session afterwards. The rule \<^verbatim>\<open>msg_id += len(self.messages)\<close> maps \<open>0\<close> to the last
  message and \<open>1 - count\<close> to the first.
\<close>

theorem get_message_from_end:
  assumes "get_mailboxes lib self = Inr boxes" and "f \<in> set boxes"
    and "get_messages lib self f = (Inr (Ids ids), s')"
    and "0 < n" and "n \<le> int (length ids)"
  shows "get_message lib self (n - int (length ids)) f = get_message lib self n f"
proof -
  obtain dat where sel: "select_reply (connection self) f = Reply ''OK'' dat"
    using get_messages_returns(1) [OF assms(3)] by blast
  have len: "len_messages (self\<lparr>selected := Some f\<rparr>) = Inr (int (length ids))"
    using get_messages_returns(2) [OF assms(3)] by (rule len_messages_Ids)
  show ?thesis
    using assms(1,2,4,5) by (simp add: get_message_def select_OK [OF sel] len)
qed

subsection \<open>Messages of the example account\<close>

lemma example_received:
  "last (py_split '';'' (last (py_split ''; ''
      ''from mx.mail.example by mail.example; Mon, 01 Jan 2024 10:00:05 +0000'')))
     = ''Mon, 01 Jan 2024 10:00:05 +0000''"
  by (simp add: py_split_def)

lemma example_headers:
  "get_header (headers (example_email i)) ''Message-ID'' = Some (''<'' @ i @ ''@mail.example>'')"
  "get_header (headers (example_email i)) ''From'' = Some ''ann@mail.example''"
  "get_header (headers (example_email i)) ''To'' = Some ''bob@mail.example''"
  "get_header (headers (example_email i)) ''Subject'' = Some ''hello''"
  "get_header (headers (example_email i)) ''Date'' = Some ''Mon, 01 Jan 2024 10:00:00 +0000''"
  "get_header (headers (example_email i)) ''Received''
     = Some ''from mx.mail.example by mail.example; Mon, 01 Jan 2024 10:00:05 +0000''"
  by (simp_all add: example_email_def py_lower_def)

lemma example_email_fields:
  "is_multipart (example_email i) = False"
  "payload (example_email i) = Some ''text''"
  by (simp_all add: example_email_def)

lemma example_init:
  "mb \<noteq> [] \<Longrightarrow> Message_init example_lib (example_email i) (Some mb) = Inr (example_message i mb)"
  by (simp add: Message_init_def example_headers example_received example_message_def
        example_email_fields example_lib_def get_body_def decode_payload_def get_attachments_def)

lemma example_fetch_reply:
  "fetch_reply (example_connection three_folders) ''INBOX'' ''1''
     = Reply ''OK'' [Tuple ''1 (RFC822 {...}'' (example_email ''m1''), Bytes '')'']"
  "fetch_reply (example_connection three_folders) ''INBOX'' ''2''
     = Reply ''OK'' [Tuple ''2 (RFC822 {...}'' (example_email ''m2''), Bytes '')'']"
  "fetch_reply (example_connection three_folders) ''INBOX'' ''0'' = Reply ''NO'' [Bytes ''FETCH failed'']"
  "fetch_reply (example_connection three_folders) ''Sent'' ''1''
     = Reply ''OK'' [Tuple ''1 (RFC822 {...}'' (example_email ''s1''), Bytes '')'']"
  "fetch_reply (example_connection three_folders) ''Sent'' ''1:1''
     = Reply ''OK'' [Tuple ''1 (RFC822 {...}'' (example_email ''s1''), Bytes '')'']"
  "fetch_reply (example_connection three_folders) ''Sent'' ''2:1'' = Reply ''NO'' [Bytes ''FETCH failed'']"
  by (simp_all add: example_connection_def three_folders_def fetch_range_def string_defs)

lemma example_inbox:
  "get_messages example_lib (example_mailer three_folders) ''INBOX''
     = (Inr (Ids [1, 2, 3]), example_mailer three_folders)"
  by (simp add: get_messages_def example_mailboxes select_def messages_def search_all_def
        example_mailer_fields example_select_reply example_search_reply example_ids)

lemma example_sent:
  "get_messages example_lib (example_mailer three_folders) ''Sent''
     = (Inr (Ids [1]), example_mailer three_folders)"
  by (simp add: get_messages_def example_mailboxes select_def messages_def search_all_def
        example_mailer_fields example_select_reply example_search_reply example_ids)

lemma example_str_int:
  "str_int 0 = ''0''" "str_int 1 = ''1''" "str_int 2 = ''2''" "str_int 10 = ''10''"
  by (simp_all add: str_int_def str_nat.simps digit_chars_def)

lemma example_get_message:
  "get_message example_lib (example_mailer three_folders) 2 ''INBOX''
     = (Inr (Message_obj (example_message ''m2'' ''INBOX'')), example_mailer three_folders)"
  "get_message example_lib (example_mailer three_folders) (- 2) ''INBOX''
     = (Inr (Message_obj (example_message ''m1'' ''INBOX'')), example_mailer three_folders)"
  "get_message example_lib (example_mailer three_folders) (- 1) ''INBOX''
     = (Inr (Message_obj (example_message ''m2'' ''INBOX'')), example_mailer three_folders)"
  "get_message example_lib (example_mailer three_folders) (- 3) ''INBOX''
     = (Inr (Str_obj ''NO''), example_mailer three_folders)"
  "get_message example_lib (example_mailer three_folders) 1 ''Sent''
     = (Inr (Message_obj (example_message ''s1'' ''Sent'')),
        (example_mailer three_folders)\<lparr>selected := Some ''Sent''\<rparr>)"
  by (simp_all add: get_message_def example_mailboxes select_def len_messages_def messages_def
        search_all_def fetch_def example_mailer_fields example_select_reply example_search_reply
        example_ids example_fetch_reply example_str_int payload_of_first_def example_init)

lemma example_message_id: "id_attr (example_message i mb) = Some (''<'' @ i @ ''@mail.example>'')"
  by (simp add: example_message_def)

subsection \<open>Offsets from the end, on the example\<close>

text \<open>
  With \<open>n - count - 1\<close> in place of \<open>n - count\<close> the two calls differ: in a folder of
  three messages, \<open>n = 2\<close> is the second message and \<open>n - count - 1 = -2\<close> is the first.
\<close>

theorem get_message_offset_counterexample:
  "get_mailboxes example_lib (example_mailer three_folders) = Inr [''INBOX'', ''Sent'', ''Trash''] \<and>
   get_messages example_lib (example_mailer three_folders) ''INBOX''
     = (Inr (Ids [1, 2, 3]), example_mailer three_folders) \<and>
   returned_id (get_message example_lib (example_mailer three_folders) 2 ''INBOX'')
     = Some (Some ''<m2@mail.example>'') \<and>
   returned_id (get_message example_lib (example_mailer three_folders) (2 - 3 - 1) ''INBOX'')
     = Some (Some ''<m1@mail.example>'') \<and>
   returned_id (get_message example_lib (example_mailer three_folders) (2 - 3 - 1) ''INBOX'')
     \<noteq> returned_id (get_message example_lib (example_mailer three_folders) 2 ''INBOX'')"
  by (simp add: example_mailboxes example_inbox example_get_message returned_id_def
        example_message_id)

theorem get_message_from_end_witness:
  "get_message example_lib (example_mailer three_folders) (2 - int (length [1, 2, 3 :: int])) ''INBOX''
     = get_message example_lib (example_mailer three_folders) 2 ''INBOX'' \<and>
   returned_id (get_message example_lib (example_mailer three_folders) 2 ''INBOX'')
     = Some (Some ''<m2@mail.example>'')"
  using get_message_from_end [OF example_mailboxes _ example_inbox, of 2]
  by (simp add: example_get_message returned_id_def example_message_id)

subsection \<open>The folder selected after a call\<close>

text \<open>
  C9. A call \<^verbatim>\<open>get_messages(folder_name)\<close> that returns has selected \<open>folder_name\<close>,
  searched there, and then selected the default folder again: what it returns is the
  search of \<open>folder_name\<close>, and where the server accepts the default folder (as it did
  when the mailer was built) the session ends with the default folder selected and
  nothing else changed.
\<close>

theorem get_messages_reselects_default:
  assumes "get_messages lib self f = (Inr msgs, s')"
    and "select_reply (connection self) (default_box self) = Reply ''OK'' dat"
  shows "(\<exists>boxes. get_mailboxes lib self = Inr boxes \<and> f \<in> set boxes) \<and>
         messages (self\<lparr>selected := Some f\<rparr>) = Inr msgs \<and>
         s' = self\<lparr>selected := Some (default_box self)\<rparr>"
proof -
  have "\<exists>boxes. get_mailboxes lib self = Inr boxes \<and> f \<in> set boxes"
    using assms(1) by (auto simp: get_messages_def split: sum.splits if_splits)
  moreover have "messages (self\<lparr>selected := Some f\<rparr>) = Inr msgs"
    using assms(1) by (rule get_messages_returns(2))
  moreover have "s' = self\<lparr>selected := Some (default_box self)\<rparr>"
    using get_messages_returns(3) [OF assms(1)] assms(2) by (simp add: select_def)
  ultimately show ?thesis by simp
qed

theorem get_messages_reselects_default_witness:
  "get_messages example_lib (example_mailer three_folders) ''Sent''
     = (Inr (Ids [1]), example_mailer three_folders) \<and>
   messages ((example_mailer three_folders)\<lparr>selected := Some ''Sent''\<rparr>) = Inr (Ids [1]) \<and>
   selected (example_mailer three_folders) = Some (default_box (example_mailer three_folders))"
  using get_messages_reselects_default [OF example_sent, of "[Bytes ''SELECT completed'']"]
  by (simp add: example_sent example_mailer_fields example_select_reply)

lemma len_messages_unselected:
  "selected s = None \<Longrightarrow> len_messages s = Inl (IMAP4_error ''command SEARCH illegal in state AUTH'')"
  by (simp add: len_messages_def messages_unselected)

lemma get_message_returns:
  assumes "get_message lib self msg_id f = (Inr r, s')"
  shows "(\<exists>m. r = Message_obj m \<and> s' = self\<lparr>selected := Some f\<rparr>) \<or>
         (\<exists>rv. r = Str_obj rv \<and> rv \<noteq> ''OK'' \<and>
               s' = snd (select (self\<lparr>selected := Some f\<rparr>) (default_box self)))"
proof -
  from assms obtain boxes where boxes: "get_mailboxes lib self = Inr boxes" "f \<in> set boxes"
    by (auto simp: get_message_def split: sum.splits if_splits)
  from assms boxes obtain st dat where sel: "select_reply (connection self) f = Reply st dat"
    by (cases "select_reply (connection self) f") (auto simp: get_message_def select_def)
  have ok: "st = ''OK''"
  proof (rule ccontr)
    assume "st \<noteq> ''OK''"
    then have "select self f = (Inr st, self\<lparr>selected := None\<rparr>)"
      using sel by (simp add: select_def)
    then show False
      using assms boxes
      by (auto simp: get_message_def len_messages_unselected fetch_unselected split: if_splits)
  qed
  have s1: "select self f = (Inr ''OK'', self\<lparr>selected := Some f\<rparr>)"
    using sel ok by (simp add: select_def)
  show ?thesis
    using assms boxes
    by (auto simp: get_message_def s1 split: sum.splits if_splits reply.splits prod.splits)
qed

lemma slice_messages_returns:
  assumes "slice_messages lib self start stop f step = (Inr r, s')"
  shows "(\<exists>ms. r = Message_list ms \<and> s' = self\<lparr>selected := Some f\<rparr>) \<or>
         (\<exists>rv. r = Str_obj rv \<and> rv \<noteq> ''OK'' \<and>
               s' = snd (select (self\<lparr>selected := Some f\<rparr>) (default_box self)))"
proof -
  from assms obtain boxes where boxes: "get_mailboxes lib self = Inr boxes" "f \<in> set boxes"
    by (auto simp: slice_messages_def split: sum.splits if_splits)
  from assms boxes obtain st dat where sel: "select_reply (connection self) f = Reply st dat"
    by (cases "select_reply (connection self) f") (auto simp: slice_messages_def select_def)
  have ok: "st = ''OK''"
  proof (rule ccontr)
    assume "st \<noteq> ''OK''"
    then have "select self f = (Inr st, self\<lparr>selected := None\<rparr>)"
      using sel by (simp add: select_def)
    then show False
      using assms boxes
      by (auto simp: slice_messages_def len_messages_unselected split: sum.splits)
  qed
  have s1: "select self f = (Inr ''OK'', self\<lparr>selected := Some f\<rparr>)"
    using sel ok by (simp add: select_def)
  show ?thesis
    using assms boxes
    by (auto simp: slice_messages_def s1 split: sum.splits if_splits reply.splits prod.splits)
qed

text \<open>
  C10. When the fetch is answered OK, \<^verbatim>\<open>get_message\<close> and \<^verbatim>\<open>slice_messages\<close> return
  their result at once: the session is left with \<open>folder_name\<close> selected and is otherwise
  as before the call. Only when they return the status of a fetch that was not OK have
  they selected the default folder again just before returning.
\<close>

theorem fetch_ok_leaves_folder_selected:
  "(get_message lib self msg_id f = (Inr (Message_obj m), s') \<longrightarrow>
      s' = self\<lparr>selected := Some f\<rparr>) \<and>
   (slice_messages lib self start stop f step = (Inr (Message_list ms), s') \<longrightarrow>
      s' = self\<lparr>selected := Some f\<rparr>) \<and>
   (get_message lib self msg_id f = (Inr (Str_obj rv), s') \<longrightarrow>
      rv \<noteq> ''OK'' \<and> s' = snd (select (self\<lparr>selected := Some f\<rparr>) (default_box self))) \<and>
   (slice_messages lib self start stop f step = (Inr (Str_obj rv), s') \<longrightarrow>
      rv \<noteq> ''OK'' \<and> s' = snd (select (self\<lparr>selected := Some f\<rparr>) (default_box self)))"
proof (intro conjI impI)
  assume "get_message lib self msg_id f = (Inr (Message_obj m), s')"
  from get_message_returns [OF this] show "s' = self\<lparr>selected := Some f\<rparr>" by simp
next
  assume "slice_messages lib self start stop f step = (Inr (Message_list ms), s')"
  from slice_messages_returns [OF this] show "s' = self\<lparr>selected := Some f\<rparr>" by simp
next
  assume a: "get_message lib self msg_id f = (Inr (Str_obj rv), s')"
  from get_message_returns [OF a] show "rv \<noteq> ''OK''" by simp
  from get_message_returns [OF a]
  show "s' = snd (select (self\<lparr>selected := Some f\<rparr>) (default_box self))" by simp
next
  assume a: "slice_messages lib self start stop f step = (Inr (Str_obj rv), s')"
  from slice_messages_returns [OF a] show "rv \<noteq> ''OK''" by simp
  from slice_messages_returns [OF a]
  show "s' = snd (select (self\<lparr>selected := Some f\<rparr>) (default_box self))" by simp
qed

lemma example_fetch_reply_range:
  "fetch_reply (example_connection three_folders) ''INBOX'' ''3:2'' = Reply ''NO'' [Bytes ''FETCH failed'']"
  by (simp add: example_connection_def three_folders_def fetch_range_def string_defs)

lemma example_slice:
  "slice_messages example_lib (example_mailer three_folders) (Some 1) (Some 1) ''Sent'' 1
     = (Inr (Message_list [example_message ''s1'' ''Sent'']),
        (example_mailer three_folders)\<lparr>selected := Some ''Sent''\<rparr>)"
  "slice_messages example_lib (example_mailer three_folders) (Some 3) (Some 2) ''INBOX'' 1
     = (Inr (Str_obj ''NO''), example_mailer three_folders)"
  by (simp_all add: slice_messages_def example_mailboxes select_def from_end_def len_messages_def
        messages_def search_all_def fetch_def example_mailer_fields example_select_reply
        example_search_reply example_ids example_fetch_reply example_fetch_reply_range
        str_int_def str_nat.simps digit_chars_def example_init)

theorem fetch_ok_leaves_folder_selected_witness:
  "get_message example_lib (example_mailer three_folders) 1 ''Sent''
     = (Inr (Message_obj (example_message ''s1'' ''Sent'')),
        (example_mailer three_folders)\<lparr>selected := Some ''Sent''\<rparr>) \<and>
   slice_messages example_lib (example_mailer three_folders) (Some 1) (Some 1) ''Sent'' 1
     = (Inr (Message_list [example_message ''s1'' ''Sent'']),
        (example_mailer three_folders)\<lparr>selected := Some ''Sent''\<rparr>) \<and>
   get_message example_lib (example_mailer three_folders) (- 3) ''INBOX''
     = (Inr (Str_obj ''NO''), example_mailer three_folders) \<and>
   slice_messages example_lib (example_mailer three_folders) (Some 3) (Some 2) ''INBOX'' 1
     = (Inr (Str_obj ''NO''), example_mailer three_folders) \<and>
   example_mailer three_folders
     = snd (select ((example_mailer three_folders)\<lparr>selected := Some ''INBOX''\<rparr>)
              (default_box (example_mailer three_folders))) \<and>
   selected (example_mailer three_folders) = Some ''INBOX''"
  using fetch_ok_leaves_folder_selected [of example_lib "example_mailer three_folders" 1 "''Sent''"
          "example_message ''s1'' ''Sent''" "(example_mailer three_folders)\<lparr>selected := Some ''Sent''\<rparr>"
          "Some 1" "Some 1" 1 "[example_message ''s1'' ''Sent'']" "''NO''"]
        fetch_ok_leaves_folder_selected [of example_lib "example_mailer three_folders" "- 3" "''INBOX''"
          "example_message ''s1'' ''Sent''" "example_mailer three_folders"
          "Some 3" "Some 2" 1 "[]" "''NO''"]
  by (simp add: example_get_message example_slice example_mailer_fields)

subsection \<open>Indexing with 0\<close>

text \<open>
  C6. On a mailer whose default folder holds 10 messages, \<^verbatim>\<open>mailer[0]\<close> goes through
  \<^verbatim>\<open>MailBox.__getitem__\<close> to \<^verbatim>\<open>get_message(0, default_box)\<close>, which takes the branch
  \<^verbatim>\<open>msg_id <= 0\<close>, asks the server for message \<open>0 + 10 = 10\<close> and returns the message
  built from the reply; it does not fail.
\<close>

theorem mailer_index_zero:
  assumes "get_mailboxes lib self = Inr boxes" and "default_box self \<in> set boxes"
    and "get_messages lib self (default_box self) = (Inr (Ids ids), s')"
    and "length ids = 10"
    and "fetch_reply (connection self) (default_box self) ''10'' = Reply ''OK'' data"
    and "payload_of_first data = Inr raw"
    and "Message_init lib raw (Some (default_box self)) = Inr m"
  shows "Mailer_getitem lib self (Key_int 0)
           = (Inr (Message_obj m), self\<lparr>selected := Some (default_box self)\<rparr>)"
proof -
  obtain dat where sel: "select_reply (connection self) (default_box self) = Reply ''OK'' dat"
    using get_messages_returns(1) [OF assms(3)] by blast
  have len: "len_messages (self\<lparr>selected := Some (default_box self)\<rparr>) = Inr 10"
    using len_messages_Ids [OF get_messages_returns(2) [OF assms(3)]] assms(4) by simp
  have ten: "str_int 10 = ''10''"
    by (simp add: str_int_def str_nat.simps digit_chars_def)
  show ?thesis
    using assms(1,2,5,6,7)
    by (simp add: Mailer_getitem_def MailBox_getitem_def get_message_def select_OK [OF sel]
          len ten fetch_def)
qed

lemma ten_list_reply:
  "list_reply (example_connection ten_messages) =
     Reply ''OK''
       [Bytes (''('' @ [CHR 0x5C] @ ''HasNoChildren) '' @ [CHR 0x22] @ ''/'' @ [CHR 0x22] @ '' ''
                 @ [CHR 0x22] @ ''INBOX'' @ [CHR 0x22])]"
  by (simp add: example_connection_def ten_messages_def)

lemma ten_replies:
  "select_reply (example_connection ten_messages) ''INBOX'' = Reply ''OK'' [Bytes ''SELECT completed'']"
  "search_reply (example_connection ten_messages) ''INBOX'' = Reply ''OK'' [Bytes ''1 2 3 4 5 6 7 8 9 10'']"
  "fetch_reply (example_connection ten_messages) ''INBOX'' ''10''
     = Reply ''OK'' [Tuple ''10 (RFC822 {...}'' (example_email ''a10''), Bytes '')'']"
  by (simp_all add: example_connection_def ten_messages_def fetch_range_def string_defs)

lemma ten_mailboxes:
  "get_mailboxes example_lib (example_mailer ten_messages) = Inr [''INBOX'']"
  by (simp add: get_mailboxes_def leaf_name_def example_mailer_fields ten_list_reply
        example_lib_def string_defs)

lemma ten_ids:
  "collect (map py_int (py_split_ws ''1 2 3 4 5 6 7 8 9 10'')) = Inr [1, 2, 3, 4, 5, 6, 7, 8, 9, 10]"
  by (simp add: string_defs)

lemma ten_inbox:
  "get_messages example_lib (example_mailer ten_messages) ''INBOX''
     = (Inr (Ids [1, 2, 3, 4, 5, 6, 7, 8, 9, 10]), example_mailer ten_messages)"
  by (simp add: get_messages_def ten_mailboxes select_def messages_def search_all_def
        example_mailer_fields ten_replies ten_ids)

theorem mailer_index_zero_witness:
  "get_messages example_lib (example_mailer ten_messages) ''INBOX''
     = (Inr (Ids [1, 2, 3, 4, 5, 6, 7, 8, 9, 10]), example_mailer ten_messages) \<and>
   Mailer_getitem example_lib (example_mailer ten_messages) (Key_int 0)
     = (Inr (Message_obj (example_message ''a10'' ''INBOX'')), example_mailer ten_messages) \<and>
   id_attr (example_message ''a10'' ''INBOX'') = Some ''<a10@mail.example>''"
  using mailer_index_zero [of example_lib "example_mailer ten_messages" "[''INBOX'']"
          "[1, 2, 3, 4, 5, 6, 7, 8, 9, 10]" "example_mailer ten_messages"
          "[Tuple ''10 (RFC822 {...}'' (example_email ''a10''), Bytes '')'']"
          "example_email ''a10''" "example_message ''a10'' ''INBOX''"]
  by (simp add: ten_mailboxes ten_inbox ten_replies example_mailer_fields payload_of_first_def
        example_init example_message_id)

subsection \<open>Fields of a message\<close>

lemma Message_init_keys: "Message_init lib raw mb = Inr m \<Longrightarrow> keys m = Message_keys"
  by (auto simp: Message_init_def split: sum.splits option.splits)

lemma KeyError_text:
  "''Message has only '' @ str_int (int (length Message_keys)) @ '' allowed keys: ''
     @ repr_str_list Message_keys
   = ''Message has only 8 allowed keys: ''
       @ ''['id', 'From', 'To', 'subject', 'date_sent', 'date_received', ''
       @ '''attachments', 'body']''"
  by (simp add: Message_keys_def repr_str_list_def str_int_def str_nat.simps digit_chars_def)

text \<open>
  C7. A message, as its constructor builds it, answers a subscript with a key outside
  the eight of \<^verbatim>\<open>keys\<close> by \<^verbatim>\<open>KeyError\<close>, whose text counts and lists the eight
  keys; with one of the eight it returns the attribute of that name.
\<close>

theorem Message_getitem_keys:
  assumes "Message_init lib raw mb = Inr m"
  shows "(k \<notin> set [''id'', ''From'', ''To'', ''subject'', ''date_sent'', ''date_received'',
                     ''attachments'', ''body''] \<longrightarrow>
            Message_getitem m k
              = Inl (KeyError (''Message has only 8 allowed keys: ''
                      @ ''['id', 'From', 'To', 'subject', 'date_sent', 'date_received', ''
                      @ '''attachments', 'body']''))) \<and>
         Message_getitem m ''id'' = Inr (of_optional (id_attr m)) \<and>
         Message_getitem m ''From'' = Inr (of_optional (From m)) \<and>
         Message_getitem m ''To'' = Inr (of_optional (To m)) \<and>
         Message_getitem m ''subject'' = Inr (of_optional (subject m)) \<and>
         Message_getitem m ''date_sent'' = Inr (PDate (date_sent m)) \<and>
         Message_getitem m ''date_received'' = Inr (PDate (date_received m)) \<and>
         Message_getitem m ''attachments'' = Inr (PAttachments (attachments m)) \<and>
         Message_getitem m ''body'' = Inr (of_optional (body m))"
proof -
  have k: "keys m = Message_keys"
    using assms by (rule Message_init_keys)
  have unknown: "k \<notin> set Message_keys \<Longrightarrow> Message_getitem m k
              = Inl (KeyError (''Message has only 8 allowed keys: ''
                      @ ''['id', 'From', 'To', 'subject', 'date_sent', 'date_received', ''
                      @ '''attachments', 'body']''))"
    using KeyError_text by (simp add: Message_getitem_def k)
  have known:
    "Message_getitem m ''id'' = Inr (of_optional (id_attr m))"
    "Message_getitem m ''From'' = Inr (of_optional (From m))"
    "Message_getitem m ''To'' = Inr (of_optional (To m))"
    "Message_getitem m ''subject'' = Inr (of_optional (subject m))"
    "Message_getitem m ''date_sent'' = Inr (PDate (date_sent m))"
    "Message_getitem m ''date_received'' = Inr (PDate (date_received m))"
    "Message_getitem m ''attachments'' = Inr (PAttachments (attachments m))"
    "Message_getitem m ''body'' = Inr (of_optional (body m))"
    by (simp_all add: Message_getitem_def k Message_keys_def getattr_message_def)
  have "k \<notin> set [''id'', ''From'', ''To'', ''subject'', ''date_sent'', ''date_received'',
                    ''attachments'', ''body''] \<longrightarrow>
            Message_getitem m k
              = Inl (KeyError (''Message has only 8 allowed keys: ''
                      @ ''['id', 'From', 'To', 'subject', 'date_sent', 'date_received', ''
                      @ '''attachments', 'body']''))"
    using unknown unfolding Message_keys_def by blast
  then show ?thesis
    using known by blast
qed

theorem Message_getitem_keys_witness:
  "Message_init example_lib (example_email ''m1'') (Some ''INBOX'')
     = Inr (example_message ''m1'' ''INBOX'') \<and>
   ''nonexistent'' \<notin> set [''id'', ''From'', ''To'', ''subject'', ''date_sent'', ''date_received'',
                              ''attachments'', ''body''] \<and>
   Message_getitem (example_message ''m1'' ''INBOX'') ''nonexistent''
     = Inl (KeyError (''Message has only 8 allowed keys: ''
             @ ''['id', 'From', 'To', 'subject', 'date_sent', 'date_received', ''
             @ '''attachments', 'body']'')) \<and>
   Message_getitem (example_message ''m1'' ''INBOX'') ''id'' = Inr (PStr ''<m1@mail.example>'') \<and>
   Message_getitem (example_message ''m1'' ''INBOX'') ''body'' = Inr (PStr ''text'')"
  using Message_getitem_keys [of example_lib "example_email ''m1''" "Some ''INBOX''"
          "example_message ''m1'' ''INBOX''" "''nonexistent''"]
  by (simp add: example_init) (simp add: example_message_def of_optional_def)

subsection \<open>Saving attachments\<close>

lemma py_split_from_hd:
  "hd (py_split_from [c] cur s) = cur @ takeWhile (\<lambda>x. x \<noteq> c) s"
  by (induction s arbitrary: cur) auto

lemma short_id_split: "drop (Suc 0) (hd (py_split ''@'' ident)) = short_id ident"
  by (simp add: py_split_def py_split_from_hd short_id_def)

lemma format_default:
  "''short_id'' \<notin> set (map fst kw) \<Longrightarrow>
   py_format default_name_format ((''short_id'', s) # (''name'', n) # kw) = Inr (s @ ''_'' @ n)"
  by (simp add: py_format_def default_name_format_def lookup_field_def prepend_def digit_chars_def)

lemma save_loop_default:
  assumes "id_attr self = Some ident"
    and "''short_id'' \<notin> set (map fst kw)" and "''name'' \<notin> set (map fst kw)"
    and "list_all (\<lambda>(n, d). d \<noteq> None \<and> can_open fs (os_path_join directory (short_id ident @ ''_'' @ n))) atts"
  shows "save_loop self directory default_name_format kw atts saved fs
           = (Inr (saved @ map (\<lambda>(n, d). short_id ident @ ''_'' @ n) atts),
              fs\<lparr>files := fold (\<lambda>(n, d) held.
                               held(os_path_join directory (short_id ident @ ''_'' @ n) \<mapsto> the d))
                             atts (files fs)\<rparr>)"
  using assms(4)
proof (induction atts arbitrary: saved fs)
  case Nil
  then show ?case by simp
next
  case (Cons a atts)
  obtain n d where a: "a = (n, d)" by (cases a)
  from Cons.prems a obtain dat where d: "d = Some dat" by auto
  let ?fs' = "fs\<lparr>files := (files fs)(os_path_join directory (short_id ident @ ''_'' @ n) \<mapsto> dat)\<rparr>"
  have rest: "list_all (\<lambda>(n, d). d \<noteq> None \<and>
                 can_open ?fs' (os_path_join directory (short_id ident @ ''_'' @ n))) atts"
    using Cons.prems by simp
  have opened: "can_open fs (os_path_join directory (short_id ident @ ''_'' @ n))"
    using Cons.prems a by simp
  have step: "save_loop self directory default_name_format kw ((n, Some dat) # atts) saved fs
                = save_loop self directory default_name_format kw atts
                    (saved @ [short_id ident @ ''_'' @ n]) ?fs'"
    using assms(1,2,3) opened by (simp add: format_default short_id_split Let_def)
  have "save_loop self directory default_name_format kw (a # atts) saved fs
          = save_loop self directory default_name_format kw atts
              (saved @ [short_id ident @ ''_'' @ n]) ?fs'"
    using step a d by simp
  also have "\<dots> = (Inr ((saved @ [short_id ident @ ''_'' @ n])
                          @ map (\<lambda>(n, d). short_id ident @ ''_'' @ n) atts),
                   ?fs'\<lparr>files := fold (\<lambda>(n, d) held.
                               held(os_path_join directory (short_id ident @ ''_'' @ n) \<mapsto> the d))
                             atts (files ?fs')\<rparr>)"
    by (rule Cons.IH [OF rest])
  also have "\<dots> = (Inr (saved @ map (\<lambda>(n, d). short_id ident @ ''_'' @ n) (a # atts)),
                   fs\<lparr>files := fold (\<lambda>(n, d) held.
                               held(os_path_join directory (short_id ident @ ''_'' @ n) \<mapsto> the d))
                             (a # atts) (files fs)\<rparr>)"
    using a d by simp
  finally show ?case .
qed

text \<open>
  C8. With the default name format, a message whose id is \<open>ident\<close> saves each attachment
  under \<open>short_id_name\<close>, where \<open>short_id\<close> is the part of \<open>ident\<close> before the \<open>@\<close>
  without its first character: the names are returned in the order of the attachments,
  and each file is written, in that order, at \<^verbatim>\<open>os.path.join(directory, name)\<close>.
  (The message has an id, the paths can be opened for writing, every attachment has a
  payload, and \<open>format_kwargs\<close> does not name \<open>short_id\<close> or \<open>name\<close> again.) For the
  id \<open><abc123@mail.example>\<close> and the one attachment \<open>report.pdf\<close> this is the file
  \<open>abc123_report.pdf\<close> in the directory, and the list of that one name.
\<close>

theorem save_attachments_default:
  assumes "id_attr self = Some ident"
    and "''short_id'' \<notin> set (map fst format_kwargs)" and "''name'' \<notin> set (map fst format_kwargs)"
    and "list_all (\<lambda>(n, d). d \<noteq> None \<and> can_open fs (os_path_join directory (short_id ident @ ''_'' @ n)))
           (attachments self)"
  shows "save_attachments self directory default_name_format format_kwargs fs
           = (Inr (map (\<lambda>(n, d). short_id ident @ ''_'' @ n) (attachments self)),
              fs\<lparr>files := fold (\<lambda>(n, d) held.
                               held(os_path_join directory (short_id ident @ ''_'' @ n) \<mapsto> the d))
                             (attachments self) (files fs)\<rparr>)"
  unfolding save_attachments_def
  using save_loop_default [OF assms, of "[]"] by simp

theorem save_attachments_default_witness:
  "id_attr report_message = Some ''<abc123@mail.example>'' \<and>
   attachments report_message = [(''report.pdf'', Some ''%PDF-1.4'')] \<and>
   default_name_format = ''{short_id}_{name}'' \<and>
   short_id ''<abc123@mail.example>'' = ''abc123'' \<and>
   fst (save_attachments report_message ''/tmp/out'' default_name_format [] example_fs)
     = Inr [''abc123_report.pdf''] \<and>
   files (snd (save_attachments report_message ''/tmp/out'' default_name_format [] example_fs))
     ''/tmp/out/abc123_report.pdf'' = Some ''%PDF-1.4''"
  using save_attachments_default [of report_message "''<abc123@mail.example>''" "[]" example_fs
          "''/tmp/out''"]
  by (simp add: report_message_def example_message_def example_fs_def short_id_def
        os_path_join_def default_name_format_def)

subsection \<open>Slices\<close>

lemma slice_items_enumerate:
  "step \<noteq> 0 \<Longrightarrow>
   slice_items lib f step i list_data
     = collect (map (\<lambda>raw. Message_init lib raw (Some f))
         (concat (map (\<lambda>(j, d). case d of
                                   Tuple a raw \<Rightarrow> if int j mod step = 0 then [raw] else []
                                 | _ \<Rightarrow> [])
                      (enumerate i list_data))))"
proof (induction list_data arbitrary: i)
  case Nil
  then show ?case by simp
next
  case (Cons d list_data)
  then show ?case
    by (cases d) (simp_all split: sum.splits)
qed

lemma slice_items_step_one:
  "slice_items lib f 1 i list_data
     = collect (map (\<lambda>raw. Message_init lib raw (Some f)) (payloads list_data))"
proof -
  have "concat (map (\<lambda>(j, d). case d of
                                 Tuple a raw \<Rightarrow> if int j mod 1 = 0 then [raw] else []
                               | _ \<Rightarrow> [])
                    (enumerate i list_data))
          = payloads list_data"
    by (induction list_data arbitrary: i) (auto simp: payloads_def split: item.splits)
  then show ?thesis
    by (simp add: slice_items_enumerate)
qed

lemma collect_all:
  "list_all (\<lambda>x. \<not> isl (g x)) xs \<Longrightarrow> \<exists>ys. collect (map g xs) = Inr ys \<and> length ys = length xs"
proof (induction xs)
  case Nil
  then show ?case by simp
next
  case (Cons x xs)
  then obtain ys where "collect (map g xs) = Inr ys" "length ys = length xs" by auto
  moreover from Cons.prems obtain y where "g x = Inr y" by (cases "g x") auto
  ultimately show ?case by simp
qed

lemma slice_messages_in_range:
  assumes "get_mailboxes lib self = Inr boxes" and "f \<in> set boxes"
    and "get_messages lib self f = (Inr (Ids ids), s')"
    and "1 \<le> start" and "start \<le> stop" and "stop \<le> int (length ids)"
    and "fetch_reply (connection self) f (str_int start @ '':'' @ str_int stop) = Reply ''OK'' list_data"
  shows "slice_messages lib self (Some start) (Some stop) f step
           = (case slice_items lib f step 0 list_data of
                Inl e \<Rightarrow> (Inl e, self\<lparr>selected := Some f\<rparr>)
              | Inr ms \<Rightarrow> (Inr (Message_list ms), self\<lparr>selected := Some f\<rparr>))"
proof -
  obtain dat where sel: "select_reply (connection self) f = Reply ''OK'' dat"
    using get_messages_returns(1) [OF assms(3)] by blast
  have len: "len_messages (self\<lparr>selected := Some f\<rparr>) = Inr (int (length ids))"
    using get_messages_returns(2) [OF assms(3)] by (rule len_messages_Ids)
  have bounds: "max 1 start = start" "min (int (length ids)) stop = stop"
    using assms(4,5,6) by simp_all
  show ?thesis
    using assms(1,2,4,5,6,7)
    by (simp add: slice_messages_def select_OK [OF sel] from_end_def len bounds fetch_def)
qed

text \<open>
  With step 1 every message of the fetched result is kept: when the server answers the
  range \<open>start:end\<close> with one message for each number, and each can be built, exactly
  \<open>end - start + 1\<close> messages are returned.
\<close>

lemma slice_messages_step_one:
  assumes "get_mailboxes lib self = Inr boxes" and "f \<in> set boxes"
    and "get_messages lib self f = (Inr (Ids ids), s')"
    and "1 \<le> start" and "start \<le> stop" and "stop \<le> int (length ids)"
    and "fetch_reply (connection self) f (str_int start @ '':'' @ str_int stop) = Reply ''OK'' list_data"
    and "int (length (payloads list_data)) = stop - start + 1"
    and "list_all (\<lambda>raw. \<not> isl (Message_init lib raw (Some f))) (payloads list_data)"
  shows "\<exists>ms. fst (slice_messages lib self (Some start) (Some stop) f 1) = Inr (Message_list ms) \<and>
              int (length ms) = stop - start + 1"
proof -
  from collect_all [OF assms(9)] obtain ms
    where "collect (map (\<lambda>raw. Message_init lib raw (Some f)) (payloads list_data)) = Inr ms"
      and "length ms = length (payloads list_data)"
    by blast
  then show ?thesis
    using assms(8)
    by (simp add: slice_messages_in_range [OF assms(1-7)] slice_items_step_one)
qed

text \<open>
  For a larger step the comprehension tests the position \<open>i\<close> of
  \<^verbatim>\<open>enumerate(list_data)\<close>, and \<^verbatim>\<open>list_data\<close> holds, after the tuple of every message,
  the closing parenthesis that \<^verbatim>\<open>imaplib\<close> hands over with it: the messages stand at the
  positions \<open>0, 2, 4, ...\<close> of the list. With step 2 nothing is left out.
\<close>

lemma slice_items_step_two:
  "slice_items lib f 2 (2 * k) (rfc822_items n raws)
     = collect (map (\<lambda>raw. Message_init lib raw (Some f)) raws)"
proof (induction raws arbitrary: k n)
  case Nil
  then show ?case by simp
next
  case (Cons raw raws)
  have "slice_items lib f 2 (Suc (Suc (2 * k))) (rfc822_items (n + 1) raws)
          = collect (map (\<lambda>raw. Message_init lib raw (Some f)) raws)"
    using Cons.IH [of "Suc k" "n + 1"] by simp
  then show ?case
    by (simp split: sum.splits)
qed

lemma example_fetch_all:
  "fetch_reply (example_connection three_folders) ''INBOX'' ''1:3''
     = Reply ''OK'' (rfc822_items 1 (map example_email [''m1'', ''m2'', ''m3'']))"
  by (simp add: example_connection_def three_folders_def fetch_range_def string_defs)

lemma example_slice_step_two:
  "slice_messages example_lib (example_mailer three_folders) (Some 1) (Some 3) ''INBOX'' 2
     = (Inr (Message_list [example_message ''m1'' ''INBOX'', example_message ''m2'' ''INBOX'',
                           example_message ''m3'' ''INBOX'']),
        example_mailer three_folders)"
proof -
  have range: "str_int 1 @ '':'' @ str_int 3 = ''1:3''"
    by (simp add: str_int_def str_nat.simps digit_chars_def)
  have "fetch_reply (connection (example_mailer three_folders)) ''INBOX''
          (str_int 1 @ '':'' @ str_int 3)
          = Reply ''OK'' (rfc822_items 1 (map example_email [''m1'', ''m2'', ''m3'']))"
    unfolding range by (simp add: example_mailer_fields example_fetch_all)
  from slice_messages_in_range [OF example_mailboxes _ example_inbox _ _ _ this, of 2]
  show ?thesis
    using slice_items_step_two [of example_lib "''INBOX''" 0 1]
    by (simp add: example_init example_mailer_fields)
qed

text \<open>
  C2. For \<open>1 \<le> start \<le> end \<le> count\<close> and a step \<open>\<ge> 1\<close>, \<^verbatim>\<open>slice_messages\<close> is claimed
  to return the messages of the range \<open>start:end\<close> at the positions \<open>0, step, 2 * step, ...\<close>.
  In the folder of three messages, the range \<open>1:3\<close> with step 2 should give the first
  and the third message; the call returns all three.
\<close>

theorem slice_messages_step_two_returns_all:
  "get_messages example_lib (example_mailer three_folders) ''INBOX''
     = (Inr (Ids [1, 2, 3]), example_mailer three_folders) \<and>
   fst (slice_messages example_lib (example_mailer three_folders) (Some 1) (Some 3) ''INBOX'' 2)
     = Inr (Message_list [example_message ''m1'' ''INBOX'', example_message ''m2'' ''INBOX'',
                          example_message ''m3'' ''INBOX'']) \<and>
   subsequence_at 2 [example_message ''m1'' ''INBOX'', example_message ''m2'' ''INBOX'',
                     example_message ''m3'' ''INBOX'']
     = [example_message ''m1'' ''INBOX'', example_message ''m3'' ''INBOX''] \<and>
   fst (slice_messages example_lib (example_mailer three_folders) (Some 1) (Some 3) ''INBOX'' 2)
     \<noteq> Inr (Message_list
           (subsequence_at 2 [example_message ''m1'' ''INBOX'', example_message ''m2'' ''INBOX'',
                              example_message ''m3'' ''INBOX'']))"
  by (simp add: example_inbox example_slice_step_two subsequence_at_def)

end
